theory Spec2Isabelle
  imports Complex_Main
begin

section \<open>The zoom widget: numbers, layout and the zoom-state factory\<close>

text \<open>
  The repository holds two revisions of one file. The development embeds the typed
  revision (the one that declares the \<open>Offset\<close> interface and \<open>getOffset\<close>), which is
  the text the specification follows. The other revision, \<open>zoom.ts\<close>, is an earlier draft
  of the same port from jQuery and cannot zoom: its \<open>createZoom\<close> starts by reading the
  undeclared \<open>$target\<close>, and its \<open>init\<close> ends with \<open>offset = offset(source)\<close>, where
  \<open>offset\<close> is \<open>createZoom\<close>'s own, still undefined, variable. Its \<open>init\<close> arithmetic,
  \<open>move\<close>, \<open>fadeTo\<close>, URL resolution and \<open>destroy\<close> body are word for word those
  embedded here. Its listeners differ as follows:
  \<^item> mode \<open>click\<close> ends with \<open>return false\<close>, which stops nothing in a listener attached
    with \<open>addEventListener\<close>, where the typed revision calls \<open>preventDefault\<close> and
    \<open>stopPropagation\<close>;
  \<^item> mode \<open>toggle\<close> does not attach or detach the document-wide \<open>mousemove\<close> listener;
  \<^item> mode \<open>mouseover\<close> calls \<open>init\<close> at once and listens to \<open>mouseenter\<close>;
  \<^item> mode \<open>grab\<close> tests \<open>e.which === 1\<close>;
  \<^item> \<open>touchstart\<close> and \<open>touchmove\<close> have no guard, and read \<open>e.originalEvent\<close>;
  \<^item> \<open>start\<close> and \<open>stop\<close> hand \<open>settings.onZoomIn\<close> and \<open>settings.onZoomOut\<close> to
    \<open>fadeTo\<close> as they are, where the typed revision wraps them in a function;
  \<^item> \<open>zoomImage\<close> always creates the image element, and \<open>createZoom\<close> sets no
    \<open>transform\<close>;
  \<^item> \<open>destroy\<close> is a one-shot listener of a \<open>destroy\<close> event on the source, where the
    typed revision declares it as a function that nothing calls.
\<close>

subsection \<open>JavaScript numbers\<close>

text \<open>
  A JavaScript number is an IEEE double. Finite values are kept as exact rationals
  (rounding is not modelled); the three special values are kept apart, because
  division by zero produces them instead of raising.
\<close>

datatype jsnum = Fin rat | PosInf | NegInf | NaN

fun js_neg :: "jsnum \<Rightarrow> jsnum" where
  "js_neg (Fin a) = Fin (- a)"
| "js_neg PosInf = NegInf"
| "js_neg NegInf = PosInf"
| "js_neg NaN = NaN"

text \<open>
  \<open>a / b\<close> on finite operands. The only divisors in the program are layout sizes
  (\<open>offsetWidth\<close>, \<open>offsetHeight\<close>), which are non-negative integers, so a zero
  divisor is always \<open>+0\<close>.
\<close>

definition js_div :: "rat \<Rightarrow> rat \<Rightarrow> jsnum" where
  "js_div a b =
     (if b = 0 then (if a = 0 then NaN else if 0 < a then PosInf else NegInf)
      else Fin (a / b))"

text \<open>\<open>a * b\<close> with a finite left operand, as in \<open>left * -xRatio\<close>.\<close>

fun js_mul :: "rat \<Rightarrow> jsnum \<Rightarrow> jsnum" where
  "js_mul a (Fin b) = Fin (a * b)"
| "js_mul a PosInf = (if a = 0 then NaN else if 0 < a then PosInf else NegInf)"
| "js_mul a NegInf = (if a = 0 then NaN else if 0 < a then NegInf else PosInf)"
| "js_mul a NaN = NaN"

fun is_finite :: "jsnum \<Rightarrow> bool" where
  "is_finite (Fin a) = True"
| "is_finite PosInf = False"
| "is_finite NegInf = False"
| "is_finite NaN = False"

subsection \<open>Layout read by the geometry code\<close>

type_synonym elem = nat

record layout =
  offsetWidth :: "elem \<Rightarrow> nat"
  offsetHeight :: "elem \<Rightarrow> nat"
  img_width :: nat
  img_height :: nat
  box_top :: "elem \<Rightarrow> rat"
  box_left :: "elem \<Rightarrow> rat"
  scrollX :: rat
  scrollY :: rat
  clientTop :: rat
  clientLeft :: rat
  computed_position :: "elem \<Rightarrow> string"

record Offset =
  off_top :: rat
  off_left :: rat

definition getOffset :: "layout \<Rightarrow> elem \<Rightarrow> Offset" where
  "getOffset L el =
     \<lparr> off_top = box_top L el + scrollY L - clientTop L,
       off_left = box_left L el + scrollX L - clientLeft L \<rparr>"

subsection \<open>createZoom: the closure variables, init and move\<close>

record geom =
  targetWidth :: nat
  targetHeight :: nat
  sourceWidth :: nat
  sourceHeight :: nat
  xRatio :: jsnum
  yRatio :: jsnum
  offset :: Offset

text \<open>
  The closure of \<open>createZoom\<close>: its two element arguments and the \<open>let\<close> variables,
  which are \<open>undefined\<close> (\<open>None\<close>) until \<open>init\<close> has run once.
\<close>

record zoom =
  z_target :: elem
  z_source :: elem
  geometry :: "geom option"

record pointer =
  pageX :: rat
  pageY :: rat

datatype error = TypeError | ReferenceError

text \<open>The values \<open>init\<close> assigns to the closure variables, in the order of the code.\<close>

definition snapshot :: "layout \<Rightarrow> elem \<Rightarrow> elem \<Rightarrow> geom" where
  "snapshot L tgt src =
     (let tw = offsetWidth L tgt;
          th = offsetHeight L tgt;
          sw = (if src = tgt then tw else offsetWidth L src);
          sh = (if src = tgt then th else offsetHeight L src)
      in \<lparr> targetWidth = tw, targetHeight = th, sourceWidth = sw, sourceHeight = sh,
           xRatio = js_div (of_nat (img_width L) - of_nat tw) (of_nat sw),
           yRatio = js_div (of_nat (img_height L) - of_nat th) (of_nat sh),
           offset = getOffset L src \<rparr>)"

definition init :: "layout \<Rightarrow> zoom \<Rightarrow> zoom" where
  "init L z = z\<lparr> geometry := Some (snapshot L (z_target z) (z_source z)) \<rparr>"

text \<open>
  The two completion callbacks \<open>fadeTo\<close> is called with: the functions that call
  \<open>settings.onZoomIn(img)\<close> and \<open>settings.onZoomOut(img)\<close> when these are functions.
\<close>

datatype cb = CbZoomIn | CbZoomOut

text \<open>What \<open>element.animate\<close> is called with, and the callback its \<open>onfinish\<close> closes over.\<close>

record animation =
  a_opacity :: rat
  a_duration :: rat
  a_easing :: string
  a_iterations :: nat
  a_fill :: string
  a_callback :: "cb option"

text \<open>
  The overlay image. \<open>style_left\<close> and \<open>style_top\<close> hold the number the code puts in
  front of \<open>'px'\<close> (\<open>None\<close> while unset), \<open>style_width\<close> and \<open>style_height\<close> the
  numbers it assigns; \<open>opacity\<close> is the opacity the element is shown with;
  \<open>animations\<close> are the animations requested and not yet finished, \<open>fired\<close> the
  completion callbacks called so far.
\<close>

record overlay =
  classList :: "string list"
  style_position :: string
  style_left :: "jsnum option"
  style_top :: "jsnum option"
  style_width :: "rat option"
  style_height :: "rat option"
  style_rest :: "(string \<times> string) list"
  style_display :: string
  opacity :: rat
  animations :: "animation list"
  fired :: "cb list"

text \<open>
  \<open>move\<close> reads \<open>offset.left\<close> first: before any \<open>init\<close> the variable is \<open>undefined\<close>
  and the property read throws a TypeError.
\<close>

definition move :: "zoom \<Rightarrow> pointer \<Rightarrow> overlay \<Rightarrow> error + overlay" where
  "move z e im =
     (case geometry z of
        None \<Rightarrow> Inl TypeError
      | Some g \<Rightarrow>
          (let left0 = pageX e - off_left (offset g);
               top0 = pageY e - off_top (offset g);
               left1 = max (min left0 (of_nat (sourceWidth g))) 0;
               top1 = max (min top0 (of_nat (sourceHeight g))) 0
           in Inr (im\<lparr> style_left := Some (js_mul left1 (js_neg (xRatio g))),
                        style_top := Some (js_mul top1 (js_neg (yRatio g))) \<rparr>)))"

text \<open>The clamp of the specification's formula, written from its words.\<close>

definition clamp :: "rat \<Rightarrow> rat \<Rightarrow> rat \<Rightarrow> rat" where
  "clamp x lo hi = (if x < lo then lo else if hi < x then hi else x)"

subsection \<open>fadeTo\<close>

text \<open>
  \<open>getComputedStyle(element)['display']\<close>: the repository ships no style sheet, so the
  computed value is the inline one, or the default of an image (\<open>inline\<close>) when the
  inline value is empty.
\<close>

definition computed_display :: "overlay \<Rightarrow> string" where
  "computed_display el = (if style_display el = [] then ''inline'' else style_display el)"

text \<open>
  The synchronous part of \<open>fadeTo\<close>: show the element if it is hidden, then request the
  animation and hang the \<open>onfinish\<close> handler on it. The pending animation carries what the
  handler closes over (the target opacity and the callback).
\<close>

definition fadeTo :: "overlay \<Rightarrow> rat \<Rightarrow> rat \<Rightarrow> cb option \<Rightarrow> overlay" where
  "fadeTo element d op callback =
     (let el1 = (if computed_display element = ''none''
                 then element\<lparr> style_display := [] \<rparr> else element)
      in el1\<lparr> animations := animations el1 @
                [\<lparr> a_opacity = op, a_duration = d, a_easing = ''linear'',
                   a_iterations = 1, a_fill = ''both'', a_callback = callback \<rparr>] \<rparr>)"

text \<open>
  The end of an animation: with \<open>fill: "both"\<close> the element keeps the final keyframe's
  opacity; then the \<open>onfinish\<close> handler runs.
\<close>

definition animation_end :: "animation \<Rightarrow> overlay \<Rightarrow> overlay" where
  "animation_end a el = el\<lparr> opacity := a_opacity a \<rparr>"

definition onfinish :: "animation \<Rightarrow> overlay \<Rightarrow> overlay" where
  "onfinish a el =
     (let el1 = (if a_opacity a = 0 then el\<lparr> style_display := ''none'' \<rparr> else el)
      in case a_callback a of
           None \<Rightarrow> el1
         | Some c \<Rightarrow> el1\<lparr> fired := fired el1 @ [c] \<rparr>)"

definition complete :: "animation \<Rightarrow> overlay \<Rightarrow> overlay" where
  "complete a el = onfinish a (animation_end a el)"

text \<open>
  Every pending animation runs to completion, oldest first: the order in which
  animations of one duration finish. Animations requested one after the other without a
  \<open>settle\<close> in between run at the same time.
\<close>

definition settle :: "overlay \<Rightarrow> overlay" where
  "settle el = fold complete (animations el) (el\<lparr> animations := [] \<rparr>)"

subsection \<open>Settings and URL resolution\<close>

datatype trigger = Mouseover | Grab | Click | Toggle

record settings =
  url :: "string option"
  target :: "elem option"
  duration :: rat
  on :: trigger
  touch :: bool
  magnify :: rat
  callback :: bool

text \<open>The first descendant \<open>img\<close> of the source, as \<open>zoomImage\<close> reads it.\<close>

record srcImage =
  data_src :: "string option"
  currentSrc :: string
  src :: string

record source_view =
  zoomImg_descendant :: bool
  first_img :: "srcImage option"

text \<open>Truthiness of a value that is a string, \<open>null\<close> or \<open>undefined\<close>.\<close>

definition truthy :: "string option \<Rightarrow> bool" where
  "truthy v = (case v of None \<Rightarrow> False | Some s \<Rightarrow> s \<noteq> [])"

definition js_or :: "string option \<Rightarrow> string option \<Rightarrow> string option" where
  "js_or a b = (if truthy a then a else b)"

text \<open>The value of \<open>settings.url\<close> after the block \<open>if (!settings.url) { ... }\<close>.\<close>

definition resolve_url :: "string option \<Rightarrow> srcImage option \<Rightarrow> string option" where
  "resolve_url u srcElement =
     (if \<not> truthy u
      then (case srcElement of
              Some i \<Rightarrow> js_or (data_src i) (js_or (Some (currentSrc i)) (Some (src i)))
            | None \<Rightarrow> u)
      else u)"

subsection \<open>One binding: the DOM it touches and the closure of zoomImage\<close>

datatype evtype =
  Mousedown | Mouseup | ClickEv | MouseoverEv | Mouseleave | Mousemove
  | Touchstart | Touchmove | Touchend

text \<open>The listener bodies that \<open>zoomImage\<close> attaches to the source element.\<close>

datatype handler =
  GrabDown | ClickSource | ToggleSource | StartListener | StopListener | MoveListener
  | TouchStartListener | TouchMoveListener | TouchEndListener

text \<open>
  An event as the handlers read it: its type, \<open>event.button\<close>, and the page coordinates
  (of the mouse event itself, or of \<open>event.touches[0] || event.changedTouches[0]\<close>).
\<close>

record event =
  ev_type :: evtype
  ev_button :: nat
  ev_pointer :: pointer

datatype call = Start pointer | Stop

datatype ret = Undefined

text \<open>
  \<open>created\<close> counts \<open>document.createElement\<close> calls; \<open>load_listeners\<close> the \<open>load\<close>
  listeners on the overlay image and \<open>onload\<close> its \<open>onload\<close> property; \<open>appended\<close>
  says that the overlay is a child of the target; \<open>target_position\<close> and
  \<open>target_overflow\<close> are the target's inline style. The document-wide listeners are
  \<open>doc_mousemove\<close> (always the one function \<open>zoom.move\<close>, so attaching it twice is
  attaching it once) and the counts of pending one-shot \<open>click\<close> and \<open>mouseup\<close>
  listeners (each a fresh closure). \<open>calls\<close> is the trace of \<open>start\<close> and \<open>stop\<close>
  calls, \<open>errors\<close> the exceptions that left a listener.
\<close>

record binding =
  created :: nat
  load_listeners :: nat
  onload :: bool
  img_role :: "string option"
  img_alt :: "string option"
  img_src :: "string option"
  appended :: bool
  target_position :: string
  target_overflow :: string
  source_listeners :: "(evtype \<times> handler) list"
  doc_mousemove :: bool
  doc_click_once :: nat
  doc_mouseup_once :: nat
  clicked :: bool
  touched :: bool
  zm :: zoom
  img :: overlay
  loaded_callbacks :: nat
  calls :: "call list"
  errors :: "error list"

subsection \<open>createZoom: the setup that runs once\<close>

definition createZoom :: "layout \<Rightarrow> rat \<Rightarrow> elem \<Rightarrow> elem \<Rightarrow> binding \<Rightarrow> binding" where
  "createZoom L mag tgt srce b =
     (let position = computed_position L tgt
      in b\<lparr> target_position :=
               (if position \<in> set [''absolute'', ''fixed''] then position else ''relative''),
             target_overflow := ''hidden'',
             img := (img b)\<lparr> classList := classList (img b) @ [''zoomImg''],
                              style_position := ''absolute'',
                              style_top := Some (Fin 0),
                              style_left := Some (Fin 0),
                              opacity := 0,
                              style_width := Some (of_nat (img_width L) * mag),
                              style_height := Some (of_nat (img_height L) * mag),
                              style_rest := [(''border'', ''none''), (''maxWidth'', ''none''),
                                             (''maxHeight'', ''none''),
                                             (''transform'', ''translate3d(0,0,0)'')] \<rparr>,
             appended := True,
             zm := \<lparr> z_target = tgt, z_source = srce, geometry = None \<rparr> \<rparr>)"

subsection \<open>start, stop and the listeners\<close>

text \<open>
  \<open>start\<close> calls \<open>init\<close>, then \<open>move\<close>, then \<open>fadeTo\<close>. The \<open>Inl\<close> branch is the
  exception \<open>move\<close> would throw; it cannot be taken here, since \<open>init\<close> has just set the
  geometry.
\<close>

definition start :: "layout \<Rightarrow> settings \<Rightarrow> pointer \<Rightarrow> binding \<Rightarrow> binding" where
  "start L s e b =
     (let b1 = b\<lparr> zm := init L (zm b), calls := calls b @ [Start e] \<rparr>
      in case move (zm b1) e (img b1) of
           Inl err \<Rightarrow> b1\<lparr> errors := errors b1 @ [err] \<rparr>
         | Inr im \<Rightarrow> b1\<lparr> img := fadeTo im (duration s) 1 (Some CbZoomIn) \<rparr>)"

definition stop :: "settings \<Rightarrow> binding \<Rightarrow> binding" where
  "stop s b = b\<lparr> img := fadeTo (img b) (duration s) 0 (Some CbZoomOut),
                 calls := calls b @ [Stop] \<rparr>"

text \<open>\<open>zoom.move\<close> used as a listener: an exception leaves the listener and is reported.\<close>

definition move_listener :: "pointer \<Rightarrow> binding \<Rightarrow> binding" where
  "move_listener e b =
     (case move (zm b) e (img b) of
        Inl err \<Rightarrow> b\<lparr> errors := errors b @ [err] \<rparr>
      | Inr im \<Rightarrow> b\<lparr> img := im \<rparr>)"

text \<open>Mode \<open>grab\<close>: the \<open>mousedown\<close> listener and the one-shot \<open>mouseup\<close> listener.\<close>

definition grab_mousedown :: "layout \<Rightarrow> settings \<Rightarrow> event \<Rightarrow> binding \<Rightarrow> binding" where
  "grab_mousedown L s ev b =
     (if ev_button ev = 0
      then (start L s (ev_pointer ev) (b\<lparr> doc_mouseup_once := Suc (doc_mouseup_once b) \<rparr>))
             \<lparr> doc_mousemove := True \<rparr>
      else b)"

definition doc_mouseup_handler :: "settings \<Rightarrow> binding \<Rightarrow> binding" where
  "doc_mouseup_handler s b = (stop s b)\<lparr> doc_mousemove := False \<rparr>"

text \<open>
  Mode \<open>click\<close>: the listener on the source and the one-shot listener on the document.
  The second component says whether the listener called \<open>stopPropagation\<close>.
\<close>

definition click_source :: "layout \<Rightarrow> settings \<Rightarrow> event \<Rightarrow> binding \<Rightarrow> binding \<times> bool" where
  "click_source L s ev b =
     (if clicked b then (b, False)
      else ((start L s (ev_pointer ev) (b\<lparr> clicked := True \<rparr>))
              \<lparr> doc_mousemove := True, doc_click_once := Suc (doc_click_once b) \<rparr>, True))"

definition doc_click_handler :: "settings \<Rightarrow> binding \<Rightarrow> binding" where
  "doc_click_handler s b = (stop s b)\<lparr> clicked := False, doc_mousemove := False \<rparr>"

text \<open>Mode \<open>toggle\<close>.\<close>

definition toggle_source :: "layout \<Rightarrow> settings \<Rightarrow> event \<Rightarrow> binding \<Rightarrow> binding" where
  "toggle_source L s ev b =
     (let b1 = (if clicked b then (stop s b)\<lparr> doc_mousemove := False \<rparr>
                else (start L s (ev_pointer ev) b)\<lparr> doc_mousemove := True \<rparr>)
      in b1\<lparr> clicked := \<not> clicked b1 \<rparr>)"

text \<open>The touch fallback. \<open>preventDefault\<close> has no effect on the state kept here.\<close>

definition touchstart_listener :: "layout \<Rightarrow> settings \<Rightarrow> event \<Rightarrow> binding \<Rightarrow> binding" where
  "touchstart_listener L s ev b =
     (if on s = Click \<or> on s = Toggle then b
      else if touched b then stop s (b\<lparr> touched := False \<rparr>)
      else start L s (ev_pointer ev) (b\<lparr> touched := True \<rparr>))"

definition touchmove_listener :: "event \<Rightarrow> binding \<Rightarrow> binding" where
  "touchmove_listener ev b =
     (if \<not> touched b \<and> \<not> clicked b then b else move_listener (ev_pointer ev) b)"

definition touchend_listener :: "settings \<Rightarrow> binding \<Rightarrow> binding" where
  "touchend_listener s b = (if touched b then stop s (b\<lparr> touched := False \<rparr>) else b)"

fun run_handler :: "layout \<Rightarrow> settings \<Rightarrow> handler \<Rightarrow> event \<Rightarrow> binding \<Rightarrow> binding \<times> bool" where
  "run_handler L s GrabDown ev b = (grab_mousedown L s ev b, False)"
| "run_handler L s ClickSource ev b = click_source L s ev b"
| "run_handler L s ToggleSource ev b = (toggle_source L s ev b, False)"
| "run_handler L s StartListener ev b = (start L s (ev_pointer ev) b, False)"
| "run_handler L s StopListener ev b = (stop s b, False)"
| "run_handler L s MoveListener ev b = (move_listener (ev_pointer ev) b, False)"
| "run_handler L s TouchStartListener ev b = (touchstart_listener L s ev b, False)"
| "run_handler L s TouchMoveListener ev b = (touchmove_listener ev b, False)"
| "run_handler L s TouchEndListener ev b = (touchend_listener s b, False)"

subsection \<open>Wiring at image load, and event dispatch\<close>

definition mouse_listeners :: "settings \<Rightarrow> (evtype \<times> handler) list" where
  "mouse_listeners s =
     (case on s of
        Grab \<Rightarrow> [(Mousedown, GrabDown)]
      | Click \<Rightarrow> [(ClickEv, ClickSource)]
      | Toggle \<Rightarrow> [(ClickEv, ToggleSource)]
      | Mouseover \<Rightarrow> [(MouseoverEv, StartListener), (Mouseleave, StopListener),
                      (Mousemove, MoveListener)])"

definition touch_listeners :: "settings \<Rightarrow> (evtype \<times> handler) list" where
  "touch_listeners s =
     (if touch s
      then [(Touchstart, TouchStartListener), (Touchmove, TouchMoveListener),
            (Touchend, TouchEndListener)]
      else [])"

text \<open>The \<open>load\<close> listener of the overlay image; \<open>srce\<close> is the bound source element.\<close>

definition on_load :: "layout \<Rightarrow> settings \<Rightarrow> elem \<Rightarrow> binding \<Rightarrow> binding" where
  "on_load L s srce b =
     (let tgt = (case target s of Some t \<Rightarrow> t | None \<Rightarrow> srce);
          b1 = createZoom L (magnify s) tgt srce b;
          b2 = b1\<lparr> source_listeners := source_listeners b1 @ mouse_listeners s @ touch_listeners s \<rparr>
      in if callback s then b2\<lparr> loaded_callbacks := Suc (loaded_callbacks b2) \<rparr> else b2)"

text \<open>
  The listeners of the source that match the event run in the order they were attached;
  the result says whether one of them stopped the propagation.
\<close>

fun source_phase ::
  "layout \<Rightarrow> settings \<Rightarrow> event \<Rightarrow> (evtype \<times> handler) list \<Rightarrow> binding \<times> bool \<Rightarrow> binding \<times> bool" where
  "source_phase L s ev [] r = r"
| "source_phase L s ev ((t, h) # ls) (b, stopped) =
     (if t = ev_type ev
      then (case run_handler L s h ev b of
              (b', st) \<Rightarrow> source_phase L s ev ls (b', stopped \<or> st))
      else source_phase L s ev ls (b, stopped))"

text \<open>
  The event at the document: the \<open>mousemove\<close> tracker if attached, or every pending
  one-shot listener of a \<open>click\<close> or \<open>mouseup\<close>, each removed as it runs.
\<close>

definition document_phase :: "settings \<Rightarrow> event \<Rightarrow> binding \<Rightarrow> binding" where
  "document_phase s ev b =
     (case ev_type ev of
        Mousemove \<Rightarrow> (if doc_mousemove b then move_listener (ev_pointer ev) b else b)
      | ClickEv \<Rightarrow> (doc_click_handler s ^^ doc_click_once b) (b\<lparr> doc_click_once := 0 \<rparr>)
      | Mouseup \<Rightarrow> (doc_mouseup_handler s ^^ doc_mouseup_once b) (b\<lparr> doc_mouseup_once := 0 \<rparr>)
      | _ \<Rightarrow> b)"

text \<open>
  An event whose target is the source element: its listeners run, and unless one of them
  stopped the propagation (or the event does not bubble) the document's listeners run.
\<close>

definition dispatch_source :: "layout \<Rightarrow> settings \<Rightarrow> event \<Rightarrow> binding \<Rightarrow> binding" where
  "dispatch_source L s ev b =
     (case source_phase L s ev (source_listeners b) (b, False) of
        (b1, stopped) \<Rightarrow>
          if stopped \<or> ev_type ev = Mouseleave then b1 else document_phase s ev b1)"

subsection \<open>zoomImage and destroy\<close>

definition zoomImage :: "source_view \<Rightarrow> settings \<Rightarrow> binding \<Rightarrow> ret \<times> binding" where
  "zoomImage sv s b =
     (let b1 = (if zoomImg_descendant sv then b else b\<lparr> created := Suc (created b) \<rparr>);
          b2 = b1\<lparr> clicked := False, touched := False \<rparr>;
          u = resolve_url (url s) (first_img sv)
      in if \<not> truthy u then (Undefined, b2)
         else (Undefined,
               b2\<lparr> load_listeners := Suc (load_listeners b2),
                   img_role := Some ''presentation'',
                   img_alt := Some [],
                   img_src := u \<rparr>))"

text \<open>
  \<open>destroy\<close>. \<open>ev_style\<close> is \<open>event.target.style\<close> read when \<open>destroy\<close> runs (its
  \<open>position\<close> and \<open>overflow\<close>), or \<open>None\<close> when there is no current event. The
  identifier \<open>$source\<close> is declared nowhere in the repository: \<open>dollar_source_off\<close> is
  \<open>None\<close> for that, and otherwise what \<open>$source.off(".zoom")\<close> does to the source's
  listeners.
\<close>

definition destroy ::
  "((evtype \<times> handler) list \<Rightarrow> (evtype \<times> handler) list) option \<Rightarrow> (string \<times> string) option
     \<Rightarrow> binding \<Rightarrow> error + binding" where
  "destroy dollar_source_off ev_style b =
     (case ev_style of
        None \<Rightarrow> Inl TypeError
      | Some (position, overflow) \<Rightarrow>
          (case dollar_source_off of
             None \<Rightarrow> Inl ReferenceError
           | Some off \<Rightarrow>
               Inr (b\<lparr> source_listeners := off (source_listeners b),
                       target_position := position,
                       target_overflow := overflow,
                       onload := False,
                       appended := False \<rparr>)))"

subsection \<open>Concrete pages used to run the definitions\<close>

text \<open>
  The scenario of the specification: every element is 100 by 100 at page offset (10, 10),
  the overlay image is 400 by 400.
\<close>

definition scenario_layout :: layout where
  "scenario_layout =
     \<lparr> offsetWidth = (\<lambda>_. 100), offsetHeight = (\<lambda>_. 100),
       img_width = 400, img_height = 400,
       box_top = (\<lambda>_. 10), box_left = (\<lambda>_. 10),
       scrollX = 0, scrollY = 0, clientTop = 0, clientLeft = 0,
       computed_position = (\<lambda>_. ''static'') \<rparr>"

text \<open>The same page with the elements not laid out (\<open>display: none\<close>): all sizes are 0.\<close>

definition collapsed_layout :: layout where
  "collapsed_layout =
     \<lparr> offsetWidth = (\<lambda>_. 0), offsetHeight = (\<lambda>_. 0),
       img_width = 400, img_height = 400,
       box_top = (\<lambda>_. 0), box_left = (\<lambda>_. 0),
       scrollX = 0, scrollY = 0, clientTop = 0, clientLeft = 0,
       computed_position = (\<lambda>_. ''static'') \<rparr>"

definition zoom_on :: "elem \<Rightarrow> elem \<Rightarrow> zoom" where
  "zoom_on tgt srce = \<lparr> z_target = tgt, z_source = srce, geometry = None \<rparr>"

text \<open>An image element as \<open>document.createElement('img')\<close> returns it.\<close>

definition new_img :: overlay where
  "new_img =
     \<lparr> classList = [], style_position = [], style_left = None, style_top = None,
       style_width = None, style_height = None, style_rest = [], style_display = [],
       opacity = 1, animations = [], fired = [] \<rparr>"

text \<open>A page on which nothing has been bound yet.\<close>

definition fresh :: binding where
  "fresh =
     \<lparr> created = 0, load_listeners = 0, onload = False,
       img_role = None, img_alt = None, img_src = None,
       appended = False, target_position = [], target_overflow = [],
       source_listeners = [], doc_mousemove = False, doc_click_once = 0,
       doc_mouseup_once = 0, clicked = False, touched = False,
       zm = zoom_on 0 0, img = new_img, loaded_callbacks = 0, calls = [], errors = [] \<rparr>"

text \<open>\<open>ZOOM_DEFAULT_OPTIONS\<close>, and the same with an explicit \<open>url\<close> and trigger.\<close>

definition ZOOM_DEFAULT_OPTIONS :: settings where
  "ZOOM_DEFAULT_OPTIONS =
     \<lparr> url = None, target = None, duration = 120, on = Mouseover, touch = True,
       magnify = 1, callback = False \<rparr>"

definition options_for :: "trigger \<Rightarrow> settings" where
  "options_for t = ZOOM_DEFAULT_OPTIONS\<lparr> url := Some ''large.jpg'', on := t \<rparr>"

text \<open>A source element holding one \<open>img\<close> that has only a \<open>src\<close>, and one holding nothing.\<close>

definition thumb_view :: source_view where
  "thumb_view =
     \<lparr> zoomImg_descendant = False,
       first_img = Some \<lparr> data_src = None, currentSrc = [], src = ''small.jpg'' \<rparr> \<rparr>"

definition empty_view :: source_view where
  "empty_view = \<lparr> zoomImg_descendant = False, first_img = None \<rparr>"

text \<open>The binding of the source element 0 once the overlay image has loaded.\<close>

definition loaded :: "trigger \<Rightarrow> binding" where
  "loaded t = on_load scenario_layout (options_for t) 0 (snd (zoomImage empty_view (options_for t) fresh))"

text \<open>A sequence of events on the source element, each with the layout of its moment.\<close>

definition run :: "settings \<Rightarrow> (layout \<times> event) list \<Rightarrow> binding \<Rightarrow> binding" where
  "run s evs b = fold (\<lambda>(L, ev). dispatch_source L s ev) evs b"

text \<open>
  The specification's reading of toggle mode: clicks alternately start and stop, the
  first one starting when the binding is not active (\<open>c\<close> false).
\<close>

fun alternating_calls :: "bool \<Rightarrow> (layout \<times> event) list \<Rightarrow> call list" where
  "alternating_calls c [] = []"
| "alternating_calls c ((L, ev) # evs) =
     (if c then Stop else Start (ev_pointer ev)) # alternating_calls (\<not> c) evs"

definition click_at :: "rat \<Rightarrow> rat \<Rightarrow> event" where
  "click_at x y = \<lparr> ev_type = ClickEv, ev_button = 0, ev_pointer = \<lparr> pageX = x, pageY = y \<rparr> \<rparr>"

definition event_at :: "evtype \<Rightarrow> rat \<Rightarrow> rat \<Rightarrow> event" where
  "event_at t x y = \<lparr> ev_type = t, ev_button = 0, ev_pointer = \<lparr> pageX = x, pageY = y \<rparr> \<rparr>"

section \<open>Geometry: init and move\<close>

lemma js_mul_neg: "js_mul a (js_neg r) = js_neg (js_mul a r)"
  by (cases r) auto

lemma max_min_clamp: "lo \<le> hi \<Longrightarrow> max (min x hi) lo = clamp x lo hi"
  by (auto simp: clamp_def)

lemma clamp_bounds: "lo \<le> hi \<Longrightarrow> lo \<le> clamp x lo hi \<and> clamp x lo hi \<le> hi"
  by (auto simp: clamp_def)

lemma geometry_init: "geometry (init L z) = Some (snapshot L (z_target z) (z_source z))"
  by (simp add: init_def)

lemma move_Some:
  "geometry z = Some g \<Longrightarrow>
   move z e im =
     Inr (im\<lparr> style_left := Some (js_neg (js_mul
                    (clamp (pageX e - off_left (offset g)) 0 (of_nat (sourceWidth g))) (xRatio g))),
               style_top := Some (js_neg (js_mul
                    (clamp (pageY e - off_top (offset g)) 0 (of_nat (sourceHeight g))) (yRatio g))) \<rparr>)"
  by (simp add: move_def Let_def js_mul_neg max_min_clamp)

lemma scaled_range:
  fixes c w r :: rat
  assumes "0 \<le> c" "c \<le> w"
  shows "min 0 (- (w * r)) \<le> - (c * r) \<and> - (c * r) \<le> max 0 (- (w * r))"
proof (cases "0 \<le> r")
  case True
  have "c * r \<le> w * r" using assms True by (simp add: mult_right_mono)
  moreover have "0 \<le> c * r" using assms True by simp
  ultimately show ?thesis by (simp add: min_def max_def)
next
  case False
  then have r: "r \<le> 0" by simp
  have "w * r \<le> c * r" using assms r by (simp add: mult_right_mono_neg)
  moreover have "c * r \<le> 0" using assms r by (simp add: mult_nonneg_nonpos)
  ultimately show ?thesis by (simp add: min_def max_def)
qed

lemma scenario_snapshot:
  "snapshot scenario_layout t s =
     \<lparr> targetWidth = 100, targetHeight = 100, sourceWidth = 100, sourceHeight = 100,
       xRatio = Fin 3, yRatio = Fin 3, offset = \<lparr> off_top = 10, off_left = 10 \<rparr> \<rparr>"
  by (simp add: snapshot_def scenario_layout_def js_div_def getOffset_def Let_def)

lemma collapsed_snapshot:
  "snapshot collapsed_layout t s =
     \<lparr> targetWidth = 0, targetHeight = 0, sourceWidth = 0, sourceHeight = 0,
       xRatio = PosInf, yRatio = PosInf, offset = \<lparr> off_top = 0, off_left = 0 \<rparr> \<rparr>"
  by (simp add: snapshot_def collapsed_layout_def js_div_def getOffset_def Let_def)

text \<open>
  C1. After \<open>init\<close>, \<open>move\<close> never fails and sets the overlay's left to
  \<open>-clamp(pageX - offset.left, 0, sourceWidth) * xRatio\<close> and its top to
  \<open>-clamp(pageY - offset.top, 0, sourceHeight) * yRatio\<close>, for every pointer and every
  layout. The clamped position lies in \<open>[0, sourceWidth]\<close> (\<open>[0, sourceHeight]\<close>), is 0
  for a pointer left of (above) the source and the full size for a pointer right of
  (below) it; so with a finite ratio \<open>r\<close> the overlay offset lies between 0 and
  \<open>-sourceWidth * r\<close> (\<open>-sourceHeight * r\<close>).
\<close>

theorem move_sets_clamped_offsets:
  assumes g: "g = snapshot L (z_target z) (z_source z)"
    and cx: "cx = clamp (pageX e - off_left (offset g)) 0 (of_nat (sourceWidth g))"
    and cy: "cy = clamp (pageY e - off_top (offset g)) 0 (of_nat (sourceHeight g))"
  shows "move (init L z) e im =
           Inr (im\<lparr> style_left := Some (js_neg (js_mul cx (xRatio g))),
                     style_top := Some (js_neg (js_mul cy (yRatio g))) \<rparr>)
       \<and> 0 \<le> cx \<and> cx \<le> of_nat (sourceWidth g)
       \<and> 0 \<le> cy \<and> cy \<le> of_nat (sourceHeight g)
       \<and> (pageX e - off_left (offset g) \<le> 0 \<longrightarrow> cx = 0)
       \<and> (of_nat (sourceWidth g) \<le> pageX e - off_left (offset g) \<longrightarrow> cx = of_nat (sourceWidth g))
       \<and> (pageY e - off_top (offset g) \<le> 0 \<longrightarrow> cy = 0)
       \<and> (of_nat (sourceHeight g) \<le> pageY e - off_top (offset g) \<longrightarrow> cy = of_nat (sourceHeight g))
       \<and> (\<forall>r. xRatio g = Fin r \<longrightarrow>
             js_neg (js_mul cx (xRatio g)) = Fin (- (cx * r))
             \<and> min 0 (- (of_nat (sourceWidth g) * r)) \<le> - (cx * r)
             \<and> - (cx * r) \<le> max 0 (- (of_nat (sourceWidth g) * r)))
       \<and> (\<forall>r. yRatio g = Fin r \<longrightarrow>
             js_neg (js_mul cy (yRatio g)) = Fin (- (cy * r))
             \<and> min 0 (- (of_nat (sourceHeight g) * r)) \<le> - (cy * r)
             \<and> - (cy * r) \<le> max 0 (- (of_nat (sourceHeight g) * r)))"
proof -
  have m: "move (init L z) e im =
           Inr (im\<lparr> style_left := Some (js_neg (js_mul cx (xRatio g))),
                     style_top := Some (js_neg (js_mul cy (yRatio g))) \<rparr>)"
    unfolding cx cy g by (rule move_Some) (rule geometry_init)
  have bx: "0 \<le> cx \<and> cx \<le> of_nat (sourceWidth g)"
    unfolding cx by (rule clamp_bounds) simp
  have by': "0 \<le> cy \<and> cy \<le> of_nat (sourceHeight g)"
    unfolding cy by (rule clamp_bounds) simp
  have px: "(pageX e - off_left (offset g) \<le> 0 \<longrightarrow> cx = 0)
       \<and> (of_nat (sourceWidth g) \<le> pageX e - off_left (offset g) \<longrightarrow> cx = of_nat (sourceWidth g))"
    unfolding cx by (auto simp: clamp_def)
  have py: "(pageY e - off_top (offset g) \<le> 0 \<longrightarrow> cy = 0)
       \<and> (of_nat (sourceHeight g) \<le> pageY e - off_top (offset g) \<longrightarrow> cy = of_nat (sourceHeight g))"
    unfolding cy by (auto simp: clamp_def)
  have rx: "\<forall>r. xRatio g = Fin r \<longrightarrow>
             js_neg (js_mul cx (xRatio g)) = Fin (- (cx * r))
             \<and> min 0 (- (of_nat (sourceWidth g) * r)) \<le> - (cx * r)
             \<and> - (cx * r) \<le> max 0 (- (of_nat (sourceWidth g) * r))"
    using scaled_range [of cx "of_nat (sourceWidth g)"] bx by simp
  have ry: "\<forall>r. yRatio g = Fin r \<longrightarrow>
             js_neg (js_mul cy (yRatio g)) = Fin (- (cy * r))
             \<and> min 0 (- (of_nat (sourceHeight g) * r)) \<le> - (cy * r)
             \<and> - (cy * r) \<le> max 0 (- (of_nat (sourceHeight g) * r))"
    using scaled_range [of cy "of_nat (sourceHeight g)"] by' by simp
  show ?thesis using m bx by' px py rx ry by blast
qed

text \<open>
  In the scenario layout a pointer at page (5, 500) is left of and below the source:
  the local position (-5, 490) is pinned to (0, 100) and the overlay goes to (0, -300),
  the lower end of the range of the vertical axis.
\<close>

theorem move_sets_clamped_offsets_witness:
  "move (init scenario_layout (zoom_on 0 0)) \<lparr> pageX = 5, pageY = 500 \<rparr> new_img =
     Inr (new_img\<lparr> style_left := Some (Fin 0), style_top := Some (Fin (- 300)) \<rparr>)
   \<and> clamp (5 - 10) 0 100 = 0 \<and> clamp (500 - 10) 0 100 = 100
   \<and> min 0 (- (100 * 3)) \<le> - (100 * (3::rat))"
  using move_sets_clamped_offsets [of "snapshot scenario_layout 0 0" scenario_layout "zoom_on 0 0"
      "clamp (5 - 10) 0 100" "\<lparr> pageX = 5, pageY = 500 \<rparr>" "clamp (500 - 10) 0 100" new_img]
  by (simp add: scenario_snapshot zoom_on_def clamp_def)

text \<open>
  C2. Whatever the closure held before, \<open>init\<close> stores the snapshot of the current layout:
  the target's size; the source's size, which is the target's when source and target are
  the same element and the source's own otherwise; \<open>xRatio = (img.width - targetWidth) /
  sourceWidth\<close> and \<open>yRatio\<close> alike (JavaScript division; the exact quotient when the
  divisor is positive); the source's page offset. A second \<open>init\<close> on the same layout
  changes nothing.
\<close>

theorem init_recomputes_ratios:
  assumes g: "g = snapshot L (z_target z) (z_source z)"
  shows "geometry (init L (z\<lparr> geometry := old \<rparr>)) = Some g
       \<and> targetWidth g = offsetWidth L (z_target z)
       \<and> targetHeight g = offsetHeight L (z_target z)
       \<and> (z_source z = z_target z \<longrightarrow>
            sourceWidth g = targetWidth g \<and> sourceHeight g = targetHeight g)
       \<and> (z_source z \<noteq> z_target z \<longrightarrow>
            sourceWidth g = offsetWidth L (z_source z)
            \<and> sourceHeight g = offsetHeight L (z_source z))
       \<and> xRatio g = js_div (of_nat (img_width L) - of_nat (targetWidth g)) (of_nat (sourceWidth g))
       \<and> yRatio g = js_div (of_nat (img_height L) - of_nat (targetHeight g)) (of_nat (sourceHeight g))
       \<and> (0 < sourceWidth g \<longrightarrow>
            xRatio g = Fin ((of_nat (img_width L) - of_nat (targetWidth g)) / of_nat (sourceWidth g)))
       \<and> (0 < sourceHeight g \<longrightarrow>
            yRatio g = Fin ((of_nat (img_height L) - of_nat (targetHeight g)) / of_nat (sourceHeight g)))
       \<and> offset g = getOffset L (z_source z)
       \<and> init L (init L z) = init L z"
  unfolding g by (simp add: init_def snapshot_def Let_def js_div_def)

theorem init_recomputes_ratios_witness:
  "geometry (init scenario_layout (zoom_on 0 0)) = Some (snapshot scenario_layout 0 0)
   \<and> sourceWidth (snapshot scenario_layout 0 0) = targetWidth (snapshot scenario_layout 0 0)
   \<and> sourceWidth (snapshot scenario_layout 1 0) = offsetWidth scenario_layout 0
   \<and> xRatio (snapshot scenario_layout 1 0) = Fin ((400 - 100) / 100)
   \<and> yRatio (snapshot scenario_layout 1 0) = Fin ((400 - 100) / 100)
   \<and> init scenario_layout (init scenario_layout (zoom_on 1 0)) = init scenario_layout (zoom_on 1 0)"
  using init_recomputes_ratios [of "snapshot scenario_layout 0 0" scenario_layout "zoom_on 0 0" None]
    init_recomputes_ratios [of "snapshot scenario_layout 1 0" scenario_layout "zoom_on 1 0" None]
  by (simp add: zoom_on_def scenario_snapshot)

lemma snapshot_finite_x: "is_finite (xRatio (snapshot L t s)) = (0 < sourceWidth (snapshot L t s))"
  by (simp add: snapshot_def Let_def js_div_def)

lemma snapshot_finite_y: "is_finite (yRatio (snapshot L t s)) = (0 < sourceHeight (snapshot L t s))"
  by (simp add: snapshot_def Let_def js_div_def)

lemma js_mul_zero_nonfinite: "\<not> is_finite r \<Longrightarrow> js_neg (js_mul 0 r) = NaN"
  by (cases r) auto

text \<open>
  C10. The ratio \<open>init\<close> stores for an axis is a finite number exactly when the source's
  size on that axis is positive. With both sizes positive, both ratios are the exact
  quotients and \<open>move\<close> assigns finite offsets for every pointer. With a size of 0 the
  division yields an infinity or NaN and \<open>move\<close> assigns NaN on that axis.
\<close>

theorem ratios_finite_iff_positive_size:
  assumes g: "g = snapshot L (z_target z) (z_source z)"
  shows "(is_finite (xRatio g) \<longleftrightarrow> 0 < sourceWidth g)
       \<and> (is_finite (yRatio g) \<longleftrightarrow> 0 < sourceHeight g)
       \<and> (0 < sourceWidth g \<and> 0 < sourceHeight g \<longrightarrow>
            (\<exists>x y. xRatio g = Fin ((of_nat (img_width L) - of_nat (targetWidth g)) / of_nat (sourceWidth g))
                 \<and> yRatio g = Fin ((of_nat (img_height L) - of_nat (targetHeight g)) / of_nat (sourceHeight g))
                 \<and> move (init L z) e im =
                     Inr (im\<lparr> style_left := Some (Fin x), style_top := Some (Fin y) \<rparr>)))
       \<and> (sourceWidth g = 0 \<longrightarrow>
            (\<exists>t. move (init L z) e im = Inr (im\<lparr> style_left := Some NaN, style_top := t \<rparr>)))
       \<and> (sourceHeight g = 0 \<longrightarrow>
            (\<exists>l. move (init L z) e im = Inr (im\<lparr> style_left := l, style_top := Some NaN \<rparr>)))"
proof -
  have fx: "is_finite (xRatio g) \<longleftrightarrow> 0 < sourceWidth g" unfolding g by (rule snapshot_finite_x)
  have fy: "is_finite (yRatio g) \<longleftrightarrow> 0 < sourceHeight g" unfolding g by (rule snapshot_finite_y)
  have m: "move (init L z) e im =
     Inr (im\<lparr> style_left := Some (js_neg (js_mul
                    (clamp (pageX e - off_left (offset g)) 0 (of_nat (sourceWidth g))) (xRatio g))),
               style_top := Some (js_neg (js_mul
                    (clamp (pageY e - off_top (offset g)) 0 (of_nat (sourceHeight g))) (yRatio g))) \<rparr>)"
    unfolding g by (rule move_Some) (rule geometry_init)
  have rx: "0 < sourceWidth g \<longrightarrow>
      xRatio g = Fin ((of_nat (img_width L) - of_nat (targetWidth g)) / of_nat (sourceWidth g))"
    unfolding g by (simp add: snapshot_def Let_def js_div_def)
  have ry: "0 < sourceHeight g \<longrightarrow>
      yRatio g = Fin ((of_nat (img_height L) - of_nat (targetHeight g)) / of_nat (sourceHeight g))"
    unfolding g by (simp add: snapshot_def Let_def js_div_def)
  have pos: "0 < sourceWidth g \<and> 0 < sourceHeight g \<longrightarrow>
            (\<exists>x y. xRatio g = Fin ((of_nat (img_width L) - of_nat (targetWidth g)) / of_nat (sourceWidth g))
                 \<and> yRatio g = Fin ((of_nat (img_height L) - of_nat (targetHeight g)) / of_nat (sourceHeight g))
                 \<and> move (init L z) e im =
                     Inr (im\<lparr> style_left := Some (Fin x), style_top := Some (Fin y) \<rparr>))"
  proof
    assume p: "0 < sourceWidth g \<and> 0 < sourceHeight g"
    from p rx obtain r where r: "xRatio g = Fin r"
      and r': "r = (of_nat (img_width L) - of_nat (targetWidth g)) / of_nat (sourceWidth g)" by simp
    from p ry obtain q where q: "yRatio g = Fin q"
      and q': "q = (of_nat (img_height L) - of_nat (targetHeight g)) / of_nat (sourceHeight g)" by simp
    have "move (init L z) e im =
            Inr (im\<lparr> style_left := Some (Fin (- (clamp (pageX e - off_left (offset g)) 0
                                                   (of_nat (sourceWidth g)) * r))),
                      style_top := Some (Fin (- (clamp (pageY e - off_top (offset g)) 0
                                                   (of_nat (sourceHeight g)) * q))) \<rparr>)"
      unfolding m by (simp add: r q)
    then show "\<exists>x y. xRatio g = Fin ((of_nat (img_width L) - of_nat (targetWidth g)) / of_nat (sourceWidth g))
                 \<and> yRatio g = Fin ((of_nat (img_height L) - of_nat (targetHeight g)) / of_nat (sourceHeight g))
                 \<and> move (init L z) e im =
                     Inr (im\<lparr> style_left := Some (Fin x), style_top := Some (Fin y) \<rparr>)"
      using r q r' q' by blast
  qed
  have zx: "sourceWidth g = 0 \<longrightarrow>
            (\<exists>t. move (init L z) e im = Inr (im\<lparr> style_left := Some NaN, style_top := t \<rparr>))"
  proof
    assume z0: "sourceWidth g = 0"
    then have "\<not> is_finite (xRatio g)" using fx by simp
    then have "js_neg (js_mul 0 (xRatio g)) = NaN" by (rule js_mul_zero_nonfinite)
    moreover have "clamp (pageX e - off_left (offset g)) 0 (of_nat (sourceWidth g)) = 0"
      using z0 by (simp add: clamp_def)
    ultimately have "move (init L z) e im = Inr (im\<lparr> style_left := Some NaN,
        style_top := Some (js_neg (js_mul
             (clamp (pageY e - off_top (offset g)) 0 (of_nat (sourceHeight g))) (yRatio g))) \<rparr>)"
      unfolding m by simp
    then show "\<exists>t. move (init L z) e im = Inr (im\<lparr> style_left := Some NaN, style_top := t \<rparr>)"
      by (rule exI)
  qed
  have zy: "sourceHeight g = 0 \<longrightarrow>
            (\<exists>l. move (init L z) e im = Inr (im\<lparr> style_left := l, style_top := Some NaN \<rparr>))"
  proof
    assume z0: "sourceHeight g = 0"
    then have "\<not> is_finite (yRatio g)" using fy by simp
    then have "js_neg (js_mul 0 (yRatio g)) = NaN" by (rule js_mul_zero_nonfinite)
    moreover have "clamp (pageY e - off_top (offset g)) 0 (of_nat (sourceHeight g)) = 0"
      using z0 by (simp add: clamp_def)
    ultimately have "move (init L z) e im = Inr (im\<lparr>
        style_left := Some (js_neg (js_mul
             (clamp (pageX e - off_left (offset g)) 0 (of_nat (sourceWidth g))) (xRatio g))),
        style_top := Some NaN \<rparr>)"
      unfolding m by simp
    then show "\<exists>l. move (init L z) e im = Inr (im\<lparr> style_left := l, style_top := Some NaN \<rparr>)"
      by (rule exI)
  qed
  show ?thesis using fx fy pos zx zy by blast
qed

text \<open>
  On the scenario layout both ratios are 3 and the offsets finite; on the collapsed
  layout the ratios are infinite and \<open>move\<close> assigns NaN to both offsets.
\<close>

theorem ratios_finite_iff_positive_size_witness:
  "is_finite (xRatio (snapshot scenario_layout 0 0))
   \<and> (\<exists>x y. move (init scenario_layout (zoom_on 0 0)) \<lparr> pageX = 60, pageY = 60 \<rparr> new_img =
              Inr (new_img\<lparr> style_left := Some (Fin x), style_top := Some (Fin y) \<rparr>))
   \<and> \<not> is_finite (xRatio (snapshot collapsed_layout 0 0))
   \<and> \<not> is_finite (yRatio (snapshot collapsed_layout 0 0))
   \<and> (\<exists>t. move (init collapsed_layout (zoom_on 0 0)) \<lparr> pageX = 60, pageY = 60 \<rparr> new_img =
            Inr (new_img\<lparr> style_left := Some NaN, style_top := t \<rparr>))
   \<and> (\<exists>l. move (init collapsed_layout (zoom_on 0 0)) \<lparr> pageX = 60, pageY = 60 \<rparr> new_img =
            Inr (new_img\<lparr> style_left := l, style_top := Some NaN \<rparr>))"
  using ratios_finite_iff_positive_size [of "snapshot scenario_layout 0 0" scenario_layout
      "zoom_on 0 0" "\<lparr> pageX = 60, pageY = 60 \<rparr>" new_img]
    ratios_finite_iff_positive_size [of "snapshot collapsed_layout 0 0" collapsed_layout
      "zoom_on 0 0" "\<lparr> pageX = 60, pageY = 60 \<rparr>" new_img]
  by (simp add: zoom_on_def scenario_snapshot collapsed_snapshot)


section \<open>fadeTo\<close>

lemma fold_complete_animations: "animations (fold complete as el) = animations el"
  by (induction as arbitrary: el)
    (simp_all add: complete_def onfinish_def animation_end_def Let_def split: option.splits)

lemma animations_settle: "animations (settle el) = []"
  by (simp add: settle_def fold_complete_animations)

lemma fadeTo_settled:
  assumes "animations el = []"
  shows "settle (fadeTo el d op cb) =
     complete \<lparr> a_opacity = op, a_duration = d, a_easing = ''linear'', a_iterations = 1,
                 a_fill = ''both'', a_callback = cb \<rparr>
       (if computed_display el = ''none'' then el\<lparr> style_display := [] \<rparr> else el)"
  using assms
  by (simp add: settle_def fadeTo_def Let_def complete_def onfinish_def animation_end_def
      split: option.splits)

lemma opacity_settle_fadeTo: "opacity (settle (fadeTo el d op cb)) = op"
  apply (simp add: settle_def fadeTo_def Let_def)
  apply (simp add: complete_def onfinish_def animation_end_def Let_def split: option.splits)
  done

lemma display_settle_fadeTo_zero: "style_display (settle (fadeTo el d 0 cb)) = ''none''"
  apply (simp add: settle_def fadeTo_def Let_def)
  apply (simp add: complete_def onfinish_def animation_end_def Let_def split: option.splits)
  done

text \<open>
  C9, as amended. \<open>fadeTo\<close> shows a hidden element before it animates and leaves a visible one as
  it is; it requests one linear animation of the opacity to the target over the given
  duration (one iteration, fill both) and does not touch the opacity itself. When an
  animation completes, the element has the target opacity, its display is \<open>none\<close> if the
  target is 0 and unchanged otherwise, and the callback, if there is one, has been called.
  So fading to 1 and then to 0 ends hidden at opacity 0 once both have completed,
  whether the second fade is requested after the first has completed or while it is
  still running; and fading to 0 and then to 1 ends visible at opacity 1 when the fade
  to 0 has completed before the fade to 1 is requested. All this from any element.
\<close>

theorem fadeTo_shows_animates_hides:
  "(computed_display el = ''none'' \<longrightarrow> computed_display (fadeTo el d op cb) \<noteq> ''none'')
   \<and> (computed_display el \<noteq> ''none'' \<longrightarrow> style_display (fadeTo el d op cb) = style_display el)
   \<and> animations (fadeTo el d op cb) = animations el @
        [\<lparr> a_opacity = op, a_duration = d, a_easing = ''linear'', a_iterations = 1,
           a_fill = ''both'', a_callback = cb \<rparr>]
   \<and> opacity (fadeTo el d op cb) = opacity el
   \<and> opacity (complete a el) = a_opacity a
   \<and> style_display (complete a el) = (if a_opacity a = 0 then ''none'' else style_display el)
   \<and> fired (complete a el) = fired el @ (case a_callback a of None \<Rightarrow> [] | Some c \<Rightarrow> [c])
   \<and> computed_display (settle (fadeTo (settle (fadeTo el d 1 c1)) d 0 c2)) = ''none''
   \<and> opacity (settle (fadeTo (settle (fadeTo el d 1 c1)) d 0 c2)) = 0
   \<and> computed_display (settle (fadeTo (settle (fadeTo el d 0 c1)) d 1 c2)) \<noteq> ''none''
   \<and> opacity (settle (fadeTo (settle (fadeTo el d 0 c1)) d 1 c2)) = 1
   \<and> computed_display (settle (fadeTo (fadeTo el d 1 c1) d 0 c2)) = ''none''
   \<and> opacity (settle (fadeTo (fadeTo el d 1 c1) d 0 c2)) = 0"
proof -
  have a: "(computed_display el = ''none'' \<longrightarrow> computed_display (fadeTo el d op cb) \<noteq> ''none'')
   \<and> (computed_display el \<noteq> ''none'' \<longrightarrow> style_display (fadeTo el d op cb) = style_display el)"
    by (simp add: fadeTo_def computed_display_def Let_def)
  have b: "animations (fadeTo el d op cb) = animations el @
        [\<lparr> a_opacity = op, a_duration = d, a_easing = ''linear'', a_iterations = 1,
           a_fill = ''both'', a_callback = cb \<rparr>] \<and> opacity (fadeTo el d op cb) = opacity el"
    by (simp add: fadeTo_def Let_def)
  have c: "opacity (complete a el) = a_opacity a
   \<and> style_display (complete a el) = (if a_opacity a = 0 then ''none'' else style_display el)
   \<and> fired (complete a el) = fired el @ (case a_callback a of None \<Rightarrow> [] | Some c \<Rightarrow> [c])"
    by (simp add: complete_def onfinish_def animation_end_def Let_def split: option.splits)
  have d1: "computed_display (settle (fadeTo (settle (fadeTo el d 1 c1)) d 0 c2)) = ''none''"
    by (simp add: fadeTo_settled animations_settle complete_def onfinish_def animation_end_def
        Let_def computed_display_def split: option.splits)
  have d2: "computed_display (settle (fadeTo (settle (fadeTo el d 0 c1)) d 1 c2)) \<noteq> ''none''"
    by (simp add: fadeTo_settled animations_settle complete_def onfinish_def animation_end_def
        Let_def computed_display_def split: option.splits)
  have d3: "computed_display (settle (fadeTo (fadeTo el d 1 c1) d 0 c2)) = ''none''"
    by (simp add: display_settle_fadeTo_zero computed_display_def)
  show ?thesis using a b c d1 d2 d3 opacity_settle_fadeTo by simp
qed

text \<open>
  A hidden image fades in, one that is shown stays shown, and the fade-out of the shown
  image ends hidden with the callback called.
\<close>

theorem fadeTo_shows_animates_hides_witness:
  "computed_display (new_img\<lparr> style_display := ''none'' \<rparr>) = ''none''
   \<and> computed_display (fadeTo (new_img\<lparr> style_display := ''none'' \<rparr>) 120 1 None) \<noteq> ''none''
   \<and> computed_display new_img \<noteq> ''none''
   \<and> style_display (fadeTo new_img 120 0 (Some CbZoomOut)) = []
   \<and> computed_display (settle (fadeTo new_img 120 0 (Some CbZoomOut))) = ''none''
   \<and> fired (settle (fadeTo new_img 120 0 (Some CbZoomOut))) = [CbZoomOut]"
  using fadeTo_shows_animates_hides [of "new_img\<lparr> style_display := ''none'' \<rparr>" 120 1 None]
    fadeTo_shows_animates_hides [of new_img 120 0 "Some CbZoomOut"
      "\<lparr> a_opacity = 0, a_duration = 120, a_easing = ''linear'', a_iterations = 1,
         a_fill = ''both'', a_callback = Some CbZoomOut \<rparr>"]
  by (simp add: new_img_def computed_display_def fadeTo_settled complete_def onfinish_def
      animation_end_def)

text \<open>
  C9 as first stated does not hold for every way the two fades can run to completion.
  A fade to 0 followed, while it is still running, by a fade to 1 (a pointer that leaves
  the source and comes back within the duration): the fade-out completes first, and its
  handler hides the image; the fade-in then completes at opacity 1, and nothing shows the
  image again. It ends with \<open>display: none\<close> at opacity 1.
\<close>

theorem fadeTo_overlapping_reverse_ends_hidden:
  "animations new_img = []
   \<and> computed_display
        (settle (fadeTo (fadeTo new_img 120 0 (Some CbZoomOut)) 120 1 (Some CbZoomIn))) = ''none''
   \<and> opacity
        (settle (fadeTo (fadeTo new_img 120 0 (Some CbZoomOut)) 120 1 (Some CbZoomIn))) = 1
   \<and> fired
        (settle (fadeTo (fadeTo new_img 120 0 (Some CbZoomOut)) 120 1 (Some CbZoomIn)))
       = [CbZoomOut, CbZoomIn]"
  by (simp add: new_img_def settle_def fadeTo_def Let_def complete_def onfinish_def
      animation_end_def computed_display_def)


section \<open>zoomImage: URL resolution\<close>

text \<open>
  C4. A non-empty \<open>url\<close> option is the URL. Without one, the URL is taken from the first
  descendant \<open>img\<close>: its \<open>data-src\<close> attribute if non-empty, else its \<open>currentSrc\<close> if
  non-empty, else its \<open>src\<close>; without such an element it stays unset. With a URL,
  \<open>zoomImage\<close> attaches the \<open>load\<close> listener and sets \<open>role\<close>, \<open>alt\<close> and \<open>src\<close>.
  Without one it returns \<open>undefined\<close> and the page is as before but for the closure's
  two flags and the detached element \<open>document.createElement\<close> returned before the
  check: no overlay is appended or styled, no listener attached anywhere, no \<open>src\<close> set.
\<close>

theorem url_precedence_and_silent_noop:
  "(truthy u \<longrightarrow> resolve_url u i = u)
   \<and> (\<not> truthy u \<longrightarrow> resolve_url u None = u)
   \<and> (\<not> truthy u \<and> truthy (data_src im) \<longrightarrow> resolve_url u (Some im) = data_src im)
   \<and> (\<not> truthy u \<and> \<not> truthy (data_src im) \<and> currentSrc im \<noteq> [] \<longrightarrow>
        resolve_url u (Some im) = Some (currentSrc im))
   \<and> (\<not> truthy u \<and> \<not> truthy (data_src im) \<and> currentSrc im = [] \<longrightarrow>
        resolve_url u (Some im) = Some (src im))
   \<and> (truthy (resolve_url (url s) (first_img sv)) \<longrightarrow>
        zoomImage sv s b =
          (Undefined,
           b\<lparr> created := (if zoomImg_descendant sv then created b else Suc (created b)),
               clicked := False, touched := False,
               load_listeners := Suc (load_listeners b),
               img_role := Some ''presentation'', img_alt := Some [],
               img_src := resolve_url (url s) (first_img sv) \<rparr>))
   \<and> (\<not> truthy (resolve_url (url s) (first_img sv)) \<longrightarrow>
        zoomImage sv s b =
          (Undefined,
           b\<lparr> created := (if zoomImg_descendant sv then created b else Suc (created b)),
               clicked := False, touched := False \<rparr>)
        \<and> appended (snd (zoomImage sv s b)) = appended b
        \<and> img (snd (zoomImage sv s b)) = img b
        \<and> load_listeners (snd (zoomImage sv s b)) = load_listeners b
        \<and> onload (snd (zoomImage sv s b)) = onload b
        \<and> source_listeners (snd (zoomImage sv s b)) = source_listeners b
        \<and> doc_mousemove (snd (zoomImage sv s b)) = doc_mousemove b
        \<and> doc_click_once (snd (zoomImage sv s b)) = doc_click_once b
        \<and> doc_mouseup_once (snd (zoomImage sv s b)) = doc_mouseup_once b
        \<and> img_src (snd (zoomImage sv s b)) = img_src b)"
  by (auto simp: resolve_url_def js_or_def truthy_def zoomImage_def Let_def split: option.splits)

text \<open>
  An explicit URL beats the image's; a bare \<open>src\<close> is used when nothing else is there;
  \<open>data-src\<close> beats \<open>currentSrc\<close>, which beats \<open>src\<close>; a source with no image and no
  \<open>url\<close> option leaves the fresh page without listener, overlay or \<open>src\<close>.
\<close>

theorem url_precedence_and_silent_noop_witness:
  "resolve_url (Some ''large.jpg'') (first_img thumb_view) = Some ''large.jpg''
   \<and> resolve_url None (first_img thumb_view) = Some ''small.jpg''
   \<and> resolve_url None (Some \<lparr> data_src = Some ''d.jpg'', currentSrc = ''c.jpg'', src = ''s.jpg'' \<rparr>)
       = Some ''d.jpg''
   \<and> resolve_url (Some []) (Some \<lparr> data_src = Some [], currentSrc = ''c.jpg'', src = ''s.jpg'' \<rparr>)
       = Some ''c.jpg''
   \<and> resolve_url None None = None
   \<and> img_src (snd (zoomImage thumb_view ZOOM_DEFAULT_OPTIONS fresh)) = Some ''small.jpg''
   \<and> load_listeners (snd (zoomImage thumb_view ZOOM_DEFAULT_OPTIONS fresh)) = 1
   \<and> zoomImage empty_view ZOOM_DEFAULT_OPTIONS fresh = (Undefined, fresh\<lparr> created := 1 \<rparr>)
   \<and> load_listeners (snd (zoomImage empty_view ZOOM_DEFAULT_OPTIONS fresh)) = 0
   \<and> img_src (snd (zoomImage empty_view ZOOM_DEFAULT_OPTIONS fresh)) = None
   \<and> \<not> appended (snd (zoomImage empty_view ZOOM_DEFAULT_OPTIONS fresh))"
  using url_precedence_and_silent_noop [of "Some ''large.jpg''" "first_img thumb_view"
      "\<lparr> data_src = Some ''d.jpg'', currentSrc = ''c.jpg'', src = ''s.jpg'' \<rparr>"
      ZOOM_DEFAULT_OPTIONS thumb_view fresh]
    url_precedence_and_silent_noop [of None None
      "\<lparr> data_src = Some ''d.jpg'', currentSrc = ''c.jpg'', src = ''s.jpg'' \<rparr>"
      ZOOM_DEFAULT_OPTIONS empty_view fresh]
    url_precedence_and_silent_noop [of "Some []" None
      "\<lparr> data_src = Some [], currentSrc = ''c.jpg'', src = ''s.jpg'' \<rparr>"
      ZOOM_DEFAULT_OPTIONS empty_view fresh]
    url_precedence_and_silent_noop [of None None
      "\<lparr> data_src = None, currentSrc = [], src = ''small.jpg'' \<rparr>"
      ZOOM_DEFAULT_OPTIONS empty_view fresh]
  by (simp add: truthy_def thumb_view_def empty_view_def ZOOM_DEFAULT_OPTIONS_def fresh_def)


section \<open>The listeners: toggle, click and touch\<close>


lemma move_init_Inr: "\<exists>im'. move (init L z) e im = Inr im'"
  by (simp add: move_def init_def Let_def)

lemma start_fields:
  "clicked (start L s e b) = clicked b"
  "touched (start L s e b) = touched b"
  "doc_mousemove (start L s e b) = doc_mousemove b"
  "doc_click_once (start L s e b) = doc_click_once b"
  "doc_mouseup_once (start L s e b) = doc_mouseup_once b"
  "source_listeners (start L s e b) = source_listeners b"
  "calls (start L s e b) = calls b @ [Start e]"
  "errors (start L s e b) = errors b"
  "zm (start L s e b) = init L (zm b)"
  using move_init_Inr [of L "zm b" e "img b"]
  by (auto simp: start_def Let_def)

lemma stop_fields:
  "clicked (stop s b) = clicked b"
  "touched (stop s b) = touched b"
  "doc_mousemove (stop s b) = doc_mousemove b"
  "doc_click_once (stop s b) = doc_click_once b"
  "doc_mouseup_once (stop s b) = doc_mouseup_once b"
  "source_listeners (stop s b) = source_listeners b"
  "calls (stop s b) = calls b @ [Stop]"
  "errors (stop s b) = errors b"
  "zm (stop s b) = zm b"
  by (simp_all add: stop_def)

lemma toggle_source_fields:
  "clicked (toggle_source L s ev b) = (\<not> clicked b)"
  "doc_mousemove (toggle_source L s ev b) = (\<not> clicked b)"
  "calls (toggle_source L s ev b) = calls b @ [if clicked b then Stop else Start (ev_pointer ev)]"
  "doc_click_once (toggle_source L s ev b) = doc_click_once b"
  "source_listeners (toggle_source L s ev b) = source_listeners b"
  "touched (toggle_source L s ev b) = touched b"
  by (simp_all add: toggle_source_def Let_def start_fields stop_fields)

lemma no_pending_click:
  "ev_type ev = ClickEv \<Longrightarrow> doc_click_once b = 0 \<Longrightarrow> document_phase s ev b = b"
  by (simp add: document_phase_def)

lemma dispatch_toggle_click:
  assumes "on s = Toggle" "source_listeners b = mouse_listeners s @ touch_listeners s"
    "ev_type ev = ClickEv" "doc_click_once b = 0"
  shows "dispatch_source L s ev b = toggle_source L s ev b"
  using assms
  by (simp add: dispatch_source_def mouse_listeners_def touch_listeners_def no_pending_click toggle_source_fields)


lemma run_Cons: "run s ((L, ev) # evs) b = run s evs (dispatch_source L s ev b)"
  by (simp add: run_def)

lemma run_Nil: "run s [] b = b"
  by (simp add: run_def)

lemma run_toggle:
  assumes mode: "on s = Toggle"
  shows "source_listeners b = mouse_listeners s @ touch_listeners s \<Longrightarrow> doc_click_once b = 0 \<Longrightarrow>
     \<forall>(L, ev) \<in> set evs. ev_type ev = ClickEv \<Longrightarrow>
     clicked (run s evs b) = (clicked b \<noteq> odd (length evs))
     \<and> doc_mousemove (run s evs b) = (if evs = [] then doc_mousemove b else clicked (run s evs b))
     \<and> calls (run s evs b) = calls b @ alternating_calls (clicked b) evs"
proof (induction evs arbitrary: b)
  case Nil
  then show ?case by (simp add: run_Nil)
next
  case (Cons x evs)
  obtain L ev where x: "x = (L, ev)" by (cases x)
  let ?b1 = "toggle_source L s ev b"
  have ty: "ev_type ev = ClickEv" using Cons.prems(3) x by simp
  have step: "dispatch_source L s ev b = ?b1"
    using mode Cons.prems(1) ty Cons.prems(2) by (rule dispatch_toggle_click)
  have w1: "source_listeners ?b1 = mouse_listeners s @ touch_listeners s"
    using Cons.prems(1) by (simp add: toggle_source_fields)
  have p1: "doc_click_once ?b1 = 0" using Cons.prems(2) by (simp add: toggle_source_fields)
  have rest: "\<forall>(L, ev) \<in> set evs. ev_type ev = ClickEv" using Cons.prems(3) by simp
  note ih = Cons.IH [OF w1 p1 rest]
  show ?case
    unfolding x run_Cons step using ih by (auto simp: toggle_source_fields)
qed

text \<open>
  C5. In toggle mode, from a binding that is not active, any sequence of clicks on the
  source leaves \<open>clicked\<close> and the document-wide \<open>mousemove\<close> tracker equal to the
  parity of the number of clicks, and the clicks call \<open>start\<close>, \<open>stop\<close>, \<open>start\<close>, ...
  in turn. One click with \<open>clicked\<close> false is \<open>start\<close>, tracker attached, \<open>clicked\<close>
  set; one click with \<open>clicked\<close> true is \<open>stop\<close>, tracker detached, \<open>clicked\<close> cleared.
\<close>

theorem toggle_clicks_flip:
  assumes mode: "on s = Toggle"
    and wired: "source_listeners b = mouse_listeners s @ touch_listeners s"
    and idle: "\<not> clicked b" "\<not> doc_mousemove b" "doc_click_once b = 0"
    and clicks: "\<forall>(L, ev) \<in> set evs. ev_type ev = ClickEv"
  shows "clicked (run s evs b) = odd (length evs)
       \<and> doc_mousemove (run s evs b) = odd (length evs)
       \<and> calls (run s evs b) = calls b @ alternating_calls False evs
       \<and> (\<not> clicked c \<longrightarrow>
            toggle_source L s ev c =
              (start L s (ev_pointer ev) c)\<lparr> doc_mousemove := True, clicked := True \<rparr>)
       \<and> (clicked c \<longrightarrow>
            toggle_source L s ev c = (stop s c)\<lparr> doc_mousemove := False, clicked := False \<rparr>)"
proof -
  have r: "clicked (run s evs b) = (clicked b \<noteq> odd (length evs))
     \<and> doc_mousemove (run s evs b) = (if evs = [] then doc_mousemove b else clicked (run s evs b))
     \<and> calls (run s evs b) = calls b @ alternating_calls (clicked b) evs"
    using mode wired idle(3) clicks by (rule run_toggle)
  have one: "(\<not> clicked c \<longrightarrow>
            toggle_source L s ev c =
              (start L s (ev_pointer ev) c)\<lparr> doc_mousemove := True, clicked := True \<rparr>)
       \<and> (clicked c \<longrightarrow>
            toggle_source L s ev c = (stop s c)\<lparr> doc_mousemove := False, clicked := False \<rparr>)"
    by (simp add: toggle_source_def Let_def start_fields stop_fields)
  show ?thesis using r one idle by auto
qed

lemma loaded_wired:
  "source_listeners (loaded t) = mouse_listeners (options_for t) @ touch_listeners (options_for t)"
  by (simp add: loaded_def on_load_def createZoom_def zoomImage_def Let_def fresh_def
      options_for_def ZOOM_DEFAULT_OPTIONS_def resolve_url_def truthy_def empty_view_def)

lemma loaded_idle:
  "\<not> clicked (loaded t)" "\<not> touched (loaded t)" "\<not> doc_mousemove (loaded t)"
  "doc_click_once (loaded t) = 0" "doc_mouseup_once (loaded t) = 0" "calls (loaded t) = []"
  "errors (loaded t) = []"
  by (simp_all add: loaded_def on_load_def createZoom_def zoomImage_def Let_def fresh_def
      options_for_def ZOOM_DEFAULT_OPTIONS_def resolve_url_def truthy_def empty_view_def)

text \<open>Three clicks on the loaded toggle binding: start, stop, start; two clicks: idle again.\<close>

theorem toggle_clicks_flip_witness:
  "clicked (run (options_for Toggle)
      [(scenario_layout, click_at 60 60), (scenario_layout, click_at 20 20),
       (scenario_layout, click_at 30 30)] (loaded Toggle))
   \<and> doc_mousemove (run (options_for Toggle)
      [(scenario_layout, click_at 60 60), (scenario_layout, click_at 20 20),
       (scenario_layout, click_at 30 30)] (loaded Toggle))
   \<and> calls (run (options_for Toggle)
      [(scenario_layout, click_at 60 60), (scenario_layout, click_at 20 20),
       (scenario_layout, click_at 30 30)] (loaded Toggle))
      = [Start \<lparr> pageX = 60, pageY = 60 \<rparr>, Stop, Start \<lparr> pageX = 30, pageY = 30 \<rparr>]
   \<and> \<not> clicked (run (options_for Toggle)
      [(scenario_layout, click_at 60 60), (scenario_layout, click_at 20 20)] (loaded Toggle))
   \<and> \<not> doc_mousemove (run (options_for Toggle)
      [(scenario_layout, click_at 60 60), (scenario_layout, click_at 20 20)] (loaded Toggle))"
  using toggle_clicks_flip [of "options_for Toggle" "loaded Toggle"
      "[(scenario_layout, click_at 60 60), (scenario_layout, click_at 20 20),
        (scenario_layout, click_at 30 30)]"]
    toggle_clicks_flip [of "options_for Toggle" "loaded Toggle"
      "[(scenario_layout, click_at 60 60), (scenario_layout, click_at 20 20)]"]
  by (simp add: loaded_wired loaded_idle options_for_def click_at_def)


lemma click_source_idle:
  "\<not> clicked b \<Longrightarrow>
   click_source L s ev b =
     ((start L s (ev_pointer ev) (b\<lparr> clicked := True \<rparr>))
        \<lparr> doc_mousemove := True, doc_click_once := Suc (doc_click_once b) \<rparr>, True)"
  by (simp add: click_source_def)

lemma click_source_armed: "clicked b \<Longrightarrow> click_source L s ev b = (b, False)"
  by (simp add: click_source_def)

lemma source_phase_click_mode:
  assumes "on s = Click" "source_listeners b = mouse_listeners s @ touch_listeners s"
    "ev_type ev = ClickEv"
  shows "source_phase L s ev (source_listeners b) (b, False) = click_source L s ev b"
  using assms
  by (cases "click_source L s ev b") (simp add: mouse_listeners_def touch_listeners_def)

lemma document_click_one:
  "ev_type ev = ClickEv \<Longrightarrow> doc_click_once b = Suc 0 \<Longrightarrow>
   document_phase s ev b = doc_click_handler s (b\<lparr> doc_click_once := 0 \<rparr>)"
  by (simp add: document_phase_def)

text \<open>
  C6. In click mode, the first click on the source (\<open>ev\<close>) sets \<open>clicked\<close>, calls
  \<open>start\<close>, attaches the document-wide \<open>mousemove\<close> tracker and one one-shot document
  \<open>click\<close> listener, and stops the propagation: the one-shot listener is still pending
  and \<open>stop\<close> has not been called. While \<open>clicked\<close> is set, the source's listener
  changes nothing and lets a further click (\<open>ev2\<close>) bubble; at the document the one-shot
  listener calls \<open>stop\<close>, clears \<open>clicked\<close> and detaches the tracker, and is gone. A
  click elsewhere in the document does the same.
\<close>

theorem click_mode_arms_then_document_disarms:
  assumes mode: "on s = Click"
    and wired: "source_listeners b = mouse_listeners s @ touch_listeners s"
    and idle: "\<not> clicked b" "doc_click_once b = 0"
    and ev: "ev_type ev = ClickEv" and ev2: "ev_type ev2 = ClickEv"
    and b1: "b1 = dispatch_source L s ev b"
    and b2: "b2 = dispatch_source L2 s ev2 b1"
  shows "b1 = (start L s (ev_pointer ev) (b\<lparr> clicked := True \<rparr>))
                \<lparr> doc_mousemove := True, doc_click_once := 1 \<rparr>
       \<and> clicked b1 \<and> doc_mousemove b1 \<and> doc_click_once b1 = 1
       \<and> calls b1 = calls b @ [Start (ev_pointer ev)]
       \<and> click_source L2 s ev2 b1 = (b1, False)
       \<and> b2 = (stop s (b1\<lparr> doc_click_once := 0 \<rparr>))\<lparr> clicked := False, doc_mousemove := False \<rparr>
       \<and> document_phase s ev2 b1 = b2
       \<and> \<not> clicked b2 \<and> \<not> doc_mousemove b2 \<and> doc_click_once b2 = 0
       \<and> calls b2 = calls b @ [Start (ev_pointer ev), Stop]"
proof -
  have sp: "source_phase L s ev (source_listeners b) (b, False) =
      ((start L s (ev_pointer ev) (b\<lparr> clicked := True \<rparr>))
        \<lparr> doc_mousemove := True, doc_click_once := Suc (doc_click_once b) \<rparr>, True)"
    using source_phase_click_mode [OF mode wired ev] click_source_idle [OF idle(1)] by simp
  have e1: "b1 = (start L s (ev_pointer ev) (b\<lparr> clicked := True \<rparr>))
                \<lparr> doc_mousemove := True, doc_click_once := 1 \<rparr>"
    unfolding b1 dispatch_source_def sp using idle(2) by simp
  have f1: "clicked b1 \<and> doc_mousemove b1 \<and> doc_click_once b1 = 1
       \<and> calls b1 = calls b @ [Start (ev_pointer ev)]
       \<and> source_listeners b1 = mouse_listeners s @ touch_listeners s"
    unfolding e1 using wired by (simp add: start_fields)
  have armed: "click_source L2 s ev2 b1 = (b1, False)"
    using f1 by (simp add: click_source_armed)
  have sp2: "source_phase L2 s ev2 (source_listeners b1) (b1, False) = (b1, False)"
    using source_phase_click_mode [OF mode _ ev2, of b1] f1 armed by simp
  have d2: "document_phase s ev2 b1 = doc_click_handler s (b1\<lparr> doc_click_once := 0 \<rparr>)"
    using ev2 f1 by (simp add: document_click_one)
  have e2: "b2 = (stop s (b1\<lparr> doc_click_once := 0 \<rparr>))\<lparr> clicked := False, doc_mousemove := False \<rparr>"
    unfolding b2 dispatch_source_def sp2 using ev2 d2 by (simp add: doc_click_handler_def)
  have f2: "\<not> clicked b2 \<and> \<not> doc_mousemove b2 \<and> doc_click_once b2 = 0
       \<and> calls b2 = calls b @ [Start (ev_pointer ev), Stop]"
    unfolding e2 using f1 by (simp add: stop_fields)
  have d3: "document_phase s ev2 b1 = b2"
    unfolding e2 d2 by (simp add: doc_click_handler_def)
  show ?thesis using e1 f1 armed e2 d3 f2 by blast
qed

text \<open>A click at (60, 60) arms the loaded click binding; a second click at (20, 20) disarms it.\<close>

theorem click_mode_arms_then_document_disarms_witness:
  "clicked (dispatch_source scenario_layout (options_for Click) (click_at 60 60) (loaded Click))
   \<and> doc_click_once (dispatch_source scenario_layout (options_for Click) (click_at 60 60)
        (loaded Click)) = 1
   \<and> calls (dispatch_source scenario_layout (options_for Click) (click_at 60 60) (loaded Click))
       = [Start \<lparr> pageX = 60, pageY = 60 \<rparr>]
   \<and> \<not> clicked (dispatch_source scenario_layout (options_for Click) (click_at 20 20)
        (dispatch_source scenario_layout (options_for Click) (click_at 60 60) (loaded Click)))
   \<and> calls (dispatch_source scenario_layout (options_for Click) (click_at 20 20)
        (dispatch_source scenario_layout (options_for Click) (click_at 60 60) (loaded Click)))
       = [Start \<lparr> pageX = 60, pageY = 60 \<rparr>, Stop]"
proof -
  have m: "on (options_for Click) = Click" by (simp add: options_for_def)
  have t1: "ev_type (click_at 60 60) = ClickEv" and t2: "ev_type (click_at 20 20) = ClickEv"
    by (simp_all add: click_at_def)
  have p: "ev_pointer (click_at 60 60) = \<lparr> pageX = 60, pageY = 60 \<rparr>"
    by (simp add: click_at_def)
  let ?b1 = "dispatch_source scenario_layout (options_for Click) (click_at 60 60) (loaded Click)"
  let ?b2 = "dispatch_source scenario_layout (options_for Click) (click_at 20 20) ?b1"
  note th = click_mode_arms_then_document_disarms [OF m loaded_wired loaded_idle(1) loaded_idle(4)
        t1 t2 refl refl, of scenario_layout scenario_layout]
  from th have a: "clicked ?b1" and b: "doc_click_once ?b1 = 1" and c: "\<not> clicked ?b2"
    by blast+
  from th have "calls ?b1 = calls (loaded Click) @ [Start (ev_pointer (click_at 60 60))]"
    by blast
  then have d: "calls ?b1 = [Start \<lparr> pageX = 60, pageY = 60 \<rparr>]"
    by (simp add: loaded_idle p)
  from th have "calls ?b2 = calls (loaded Click) @ [Start (ev_pointer (click_at 60 60)), Stop]"
    by blast
  then have e: "calls ?b2 = [Start \<lparr> pageX = 60, pageY = 60 \<rparr>, Stop]"
    by (simp add: loaded_idle p)
  show ?thesis using a b c d e by blast
qed

lemma move_Some_raw:
  "geometry z = Some g \<Longrightarrow>
   move z e im =
     Inr (im\<lparr> style_left := Some (js_mul (max (min (pageX e - off_left (offset g)) (of_nat (sourceWidth g))) 0) (js_neg (xRatio g))),
               style_top := Some (js_mul (max (min (pageY e - off_top (offset g)) (of_nat (sourceHeight g))) 0) (js_neg (yRatio g))) \<rparr>)"
  by (simp add: move_def Let_def)

lemma source_phase_touch:
  assumes "source_listeners b = mouse_listeners s @ touch_listeners s" "touch s"
  shows "ev_type ev = Touchstart \<Longrightarrow>
           source_phase L s ev (source_listeners b) (b, False) = (touchstart_listener L s ev b, False)"
    and "ev_type ev = Touchmove \<Longrightarrow>
           source_phase L s ev (source_listeners b) (b, False) = (touchmove_listener ev b, False)"
    and "ev_type ev = Touchend \<Longrightarrow>
           source_phase L s ev (source_listeners b) (b, False) = (touchend_listener s b, False)"
  using assms
  by (cases "on s"; simp add: mouse_listeners_def touch_listeners_def)+

lemma dispatch_touch:
  assumes "source_listeners b = mouse_listeners s @ touch_listeners s" "touch s"
  shows "ev_type ev = Touchstart \<Longrightarrow> dispatch_source L s ev b = touchstart_listener L s ev b"
    and "ev_type ev = Touchmove \<Longrightarrow> dispatch_source L s ev b = touchmove_listener ev b"
    and "ev_type ev = Touchend \<Longrightarrow> dispatch_source L s ev b = touchend_listener s b"
  using source_phase_touch [OF assms, of ev L]
  by (simp_all add: dispatch_source_def document_phase_def)

text \<open>
  C7. With \<open>touch\<close> set, the three touch listeners are attached after those of the mouse
  mode, whatever the mode, and a touch event on the source runs its touch listener
  only. In modes click and toggle the \<open>touchstart\<close> listener returns at once: the binding
  is unchanged, so neither \<open>start\<close> nor \<open>stop\<close> is called. In modes mouseover and grab
  it sets \<open>touched\<close> and calls \<open>start\<close>, or, if \<open>touched\<close> is set, clears it and calls
  \<open>stop\<close>. While \<open>touched\<close>, \<open>touchmove\<close> is \<open>zoom.move\<close> and repositions the overlay;
  \<open>touchend\<close> clears \<open>touched\<close> and calls \<open>stop\<close> if \<open>touched\<close> was set and does
  nothing otherwise.
\<close>

theorem touch_fallback_additive_and_suppressed:
  "source_listeners (on_load L s srce b) =
       source_listeners b @ mouse_listeners s @
       (if touch s
        then [(Touchstart, TouchStartListener), (Touchmove, TouchMoveListener),
              (Touchend, TouchEndListener)]
        else [])
   \<and> (source_listeners b = mouse_listeners s @ touch_listeners s \<and> touch s \<longrightarrow>
        (ev_type ev = Touchstart \<longrightarrow> dispatch_source L s ev b = touchstart_listener L s ev b)
        \<and> (ev_type ev = Touchmove \<longrightarrow> dispatch_source L s ev b = touchmove_listener ev b)
        \<and> (ev_type ev = Touchend \<longrightarrow> dispatch_source L s ev b = touchend_listener s b))
   \<and> (on s = Click \<or> on s = Toggle \<longrightarrow> touchstart_listener L s ev b = b)
   \<and> ((on s = Mouseover \<or> on s = Grab) \<and> \<not> touched b \<longrightarrow>
        touchstart_listener L s ev b = start L s (ev_pointer ev) (b\<lparr> touched := True \<rparr>)
        \<and> touched (touchstart_listener L s ev b)
        \<and> calls (touchstart_listener L s ev b) = calls b @ [Start (ev_pointer ev)])
   \<and> ((on s = Mouseover \<or> on s = Grab) \<and> touched b \<longrightarrow>
        touchstart_listener L s ev b = stop s (b\<lparr> touched := False \<rparr>)
        \<and> \<not> touched (touchstart_listener L s ev b)
        \<and> calls (touchstart_listener L s ev b) = calls b @ [Stop])
   \<and> (touched b \<longrightarrow> touchmove_listener ev b = move_listener (ev_pointer ev) b)
   \<and> (touched b \<and> geometry (zm b) = Some g \<longrightarrow>
        move (zm b) (ev_pointer ev) (img b) = Inr (img (touchmove_listener ev b))
        \<and> calls (touchmove_listener ev b) = calls b)
   \<and> (touched b \<longrightarrow>
        touchend_listener s b = stop s (b\<lparr> touched := False \<rparr>)
        \<and> \<not> touched (touchend_listener s b)
        \<and> calls (touchend_listener s b) = calls b @ [Stop])
   \<and> (\<not> touched b \<longrightarrow> touchend_listener s b = b)"
proof -
  have wire: "source_listeners (on_load L s srce b) =
       source_listeners b @ mouse_listeners s @
       (if touch s
        then [(Touchstart, TouchStartListener), (Touchmove, TouchMoveListener),
              (Touchend, TouchEndListener)]
        else [])"
    by (simp add: on_load_def createZoom_def Let_def touch_listeners_def)
  have disp: "source_listeners b = mouse_listeners s @ touch_listeners s \<and> touch s \<longrightarrow>
        (ev_type ev = Touchstart \<longrightarrow> dispatch_source L s ev b = touchstart_listener L s ev b)
        \<and> (ev_type ev = Touchmove \<longrightarrow> dispatch_source L s ev b = touchmove_listener ev b)
        \<and> (ev_type ev = Touchend \<longrightarrow> dispatch_source L s ev b = touchend_listener s b)"
    using dispatch_touch [of b s ev L] by blast
  have sup: "on s = Click \<or> on s = Toggle \<longrightarrow> touchstart_listener L s ev b = b"
    by (auto simp: touchstart_listener_def)
  have on1: "(on s = Mouseover \<or> on s = Grab) \<and> \<not> touched b \<longrightarrow>
        touchstart_listener L s ev b = start L s (ev_pointer ev) (b\<lparr> touched := True \<rparr>)
        \<and> touched (touchstart_listener L s ev b)
        \<and> calls (touchstart_listener L s ev b) = calls b @ [Start (ev_pointer ev)]"
    by (auto simp: touchstart_listener_def start_fields)
  have on2: "(on s = Mouseover \<or> on s = Grab) \<and> touched b \<longrightarrow>
        touchstart_listener L s ev b = stop s (b\<lparr> touched := False \<rparr>)
        \<and> \<not> touched (touchstart_listener L s ev b)
        \<and> calls (touchstart_listener L s ev b) = calls b @ [Stop]"
    by (auto simp: touchstart_listener_def stop_fields)
  have mv: "touched b \<longrightarrow> touchmove_listener ev b = move_listener (ev_pointer ev) b"
    by (simp add: touchmove_listener_def)
  have mv2: "touched b \<and> geometry (zm b) = Some g \<longrightarrow>
        move (zm b) (ev_pointer ev) (img b) = Inr (img (touchmove_listener ev b))
        \<and> calls (touchmove_listener ev b) = calls b"
    by (simp add: touchmove_listener_def move_listener_def move_Some_raw)
  have en: "(touched b \<longrightarrow>
        touchend_listener s b = stop s (b\<lparr> touched := False \<rparr>)
        \<and> \<not> touched (touchend_listener s b)
        \<and> calls (touchend_listener s b) = calls b @ [Stop])
     \<and> (\<not> touched b \<longrightarrow> touchend_listener s b = b)"
    by (simp add: touchend_listener_def stop_fields)
  show ?thesis using wire disp sup on1 on2 mv mv2 en by blast
qed


lemma options_for_fields:
  "on (options_for t) = t" "touch (options_for t)" "duration (options_for t) = 120"
  by (simp_all add: options_for_def ZOOM_DEFAULT_OPTIONS_def)

lemma loaded_zm: "zm (loaded t) = zoom_on 0 0"
  by (simp add: loaded_def on_load_def createZoom_def zoomImage_def Let_def fresh_def
      options_for_def ZOOM_DEFAULT_OPTIONS_def resolve_url_def truthy_def empty_view_def zoom_on_def)

text \<open>
  Grab mode keeps its \<open>mousedown\<close> listener beside the touch listeners; a touch at
  (60, 60) starts, a move to (70, 70) puts the overlay at left -180, the end of the touch
  stops. In click and toggle mode the same \<open>touchstart\<close> changes nothing.
\<close>

theorem touch_fallback_additive_and_suppressed_witness:
  "source_listeners (loaded Grab) =
     [(Mousedown, GrabDown), (Touchstart, TouchStartListener), (Touchmove, TouchMoveListener),
      (Touchend, TouchEndListener)]
   \<and> dispatch_source scenario_layout (options_for Click) (event_at Touchstart 60 60) (loaded Click)
       = loaded Click
   \<and> dispatch_source scenario_layout (options_for Toggle) (event_at Touchstart 60 60) (loaded Toggle)
       = loaded Toggle
   \<and> touched (dispatch_source scenario_layout (options_for Grab) (event_at Touchstart 60 60)
        (loaded Grab))
   \<and> calls (dispatch_source scenario_layout (options_for Grab) (event_at Touchstart 60 60)
        (loaded Grab)) = [Start \<lparr> pageX = 60, pageY = 60 \<rparr>]
   \<and> style_left (img (dispatch_source scenario_layout (options_for Grab) (event_at Touchmove 70 70)
        (dispatch_source scenario_layout (options_for Grab) (event_at Touchstart 60 60)
          (loaded Grab)))) = Some (Fin (- 180))
   \<and> calls (dispatch_source scenario_layout (options_for Grab) (event_at Touchend 70 70)
        (dispatch_source scenario_layout (options_for Grab) (event_at Touchstart 60 60)
          (loaded Grab))) = [Start \<lparr> pageX = 60, pageY = 60 \<rparr>, Stop]
   \<and> \<not> touched (dispatch_source scenario_layout (options_for Grab) (event_at Touchend 70 70)
        (dispatch_source scenario_layout (options_for Grab) (event_at Touchstart 60 60)
          (loaded Grab)))"
proof -
  let ?L = scenario_layout
  let ?b1 = "dispatch_source ?L (options_for Grab) (event_at Touchstart 60 60) (loaded Grab)"
  have ty: "ev_type (event_at Touchstart 60 60) = Touchstart"
    "ev_type (event_at Touchmove 70 70) = Touchmove"
    "ev_type (event_at Touchend 70 70) = Touchend"
    by (simp_all add: event_at_def)
  have pt: "ev_pointer (event_at Touchstart 60 60) = \<lparr> pageX = 60, pageY = 60 \<rparr>"
    "ev_pointer (event_at Touchmove 70 70) = \<lparr> pageX = 70, pageY = 70 \<rparr>"
    by (simp_all add: event_at_def)
  have w0: "source_listeners (loaded Grab) =
     [(Mousedown, GrabDown), (Touchstart, TouchStartListener), (Touchmove, TouchMoveListener),
      (Touchend, TouchEndListener)]"
    using touch_fallback_additive_and_suppressed [of scenario_layout "options_for Grab" 0
        "snd (zoomImage empty_view (options_for Grab) fresh)"]
    by (simp add: loaded_def options_for_fields mouse_listeners_def zoomImage_def Let_def fresh_def)
  note c = touch_fallback_additive_and_suppressed [of ?L "options_for Click" 0 "loaded Click"
      "event_at Touchstart 60 60" "snapshot ?L 0 0"]
  have c1: "dispatch_source ?L (options_for Click) (event_at Touchstart 60 60) (loaded Click)
       = loaded Click"
    using c loaded_wired [of Click] ty by (simp add: options_for_fields)
  note t = touch_fallback_additive_and_suppressed [of ?L "options_for Toggle" 0 "loaded Toggle"
      "event_at Touchstart 60 60" "snapshot ?L 0 0"]
  have t1: "dispatch_source ?L (options_for Toggle) (event_at Touchstart 60 60) (loaded Toggle)
       = loaded Toggle"
    using t loaded_wired [of Toggle] ty by (simp add: options_for_fields)
  note g = touch_fallback_additive_and_suppressed [of ?L "options_for Grab" 0 "loaded Grab"
      "event_at Touchstart 60 60" "snapshot ?L 0 0"]
  have g1: "?b1 = start ?L (options_for Grab) \<lparr> pageX = 60, pageY = 60 \<rparr>
               ((loaded Grab)\<lparr> touched := True \<rparr>)"
    using g loaded_wired [of Grab] ty loaded_idle(2) [of Grab] by (simp add: options_for_fields pt)
  have g2: "touched ?b1" "calls ?b1 = [Start \<lparr> pageX = 60, pageY = 60 \<rparr>]"
    "source_listeners ?b1 = mouse_listeners (options_for Grab) @ touch_listeners (options_for Grab)"
    "geometry (zm ?b1) = Some (snapshot ?L 0 0)"
    unfolding g1 by (simp_all add: start_fields loaded_idle loaded_wired loaded_zm geometry_init zoom_on_def)
  note m = touch_fallback_additive_and_suppressed [of ?L "options_for Grab" 0 ?b1
      "event_at Touchmove 70 70" "snapshot ?L 0 0"]
  have m1: "dispatch_source ?L (options_for Grab) (event_at Touchmove 70 70) ?b1
              = touchmove_listener (event_at Touchmove 70 70) ?b1"
    using m g2 ty by (simp add: options_for_fields)
  have m2: "move (zm ?b1) \<lparr> pageX = 70, pageY = 70 \<rparr> (img ?b1)
              = Inr (img (touchmove_listener (event_at Touchmove 70 70) ?b1))"
    using m g2 by (simp add: pt)
  have m3: "style_left (img (dispatch_source ?L (options_for Grab) (event_at Touchmove 70 70) ?b1))
              = Some (Fin (- 180))"
    using m2 [symmetric] unfolding m1 by (simp add: move_Some_raw [OF g2(4)] scenario_snapshot)
  note e = touch_fallback_additive_and_suppressed [of ?L "options_for Grab" 0 ?b1
      "event_at Touchend 70 70" "snapshot ?L 0 0"]
  have e1: "dispatch_source ?L (options_for Grab) (event_at Touchend 70 70) ?b1
              = touchend_listener (options_for Grab) ?b1"
    using e g2 ty by (simp add: options_for_fields)
  from e g2(1) have e3: "\<not> touched (touchend_listener (options_for Grab) ?b1)"
    and e4: "calls (touchend_listener (options_for Grab) ?b1) = calls ?b1 @ [Stop]"
    by blast+
  have e2: "calls (touchend_listener (options_for Grab) ?b1) = [Start \<lparr> pageX = 60, pageY = 60 \<rparr>, Stop]"
    unfolding e4 g2(2) by simp
  show ?thesis using w0 c1 t1 g2(1,2) m3 e2 e3 unfolding e1 by blast
qed

section \<open>The scenario of the specification\<close>

lemma style_fadeTo:
  "style_left (fadeTo el d op cb) = style_left el" "style_top (fadeTo el d op cb) = style_top el"
  by (simp_all add: fadeTo_def Let_def)

lemma start_img:
  "move (init L (zm b)) e (img b) = Inr im \<Longrightarrow>
   img (start L s e b) = fadeTo im (duration s) 1 (Some CbZoomIn)"
  by (simp add: start_def Let_def)

lemma loaded_overlay:
  "style_width (img (loaded t)) = Some 400" "style_height (img (loaded t)) = Some 400"
  "style_left (img (loaded t)) = Some (Fin 0)" "style_top (img (loaded t)) = Some (Fin 0)"
  "opacity (img (loaded t)) = 0"
  by (simp_all add: loaded_def on_load_def createZoom_def zoomImage_def Let_def fresh_def
      options_for_def ZOOM_DEFAULT_OPTIONS_def resolve_url_def truthy_def empty_view_def
      scenario_layout_def)

lemma dispatch_mouseover:
  assumes "on s = Mouseover" "source_listeners b = mouse_listeners s @ touch_listeners s"
    "ev_type ev = MouseoverEv"
  shows "dispatch_source L s ev b = start L s (ev_pointer ev) b"
  using assms
  by (simp add: dispatch_source_def document_phase_def mouse_listeners_def touch_listeners_def)

text \<open>
  C3. Source 100 by 100 at page offset (10, 10), overlay 400 by 400 with \<open>magnify\<close> 1,
  target 100 by 100 (the source itself, element 0, or another element, 1): \<open>init\<close> stores
  \<open>xRatio = yRatio = 3\<close>; a pointer at page (60, 60) has the clamped local position
  (50, 50) and \<open>move\<close> puts the overlay at left -150, top -150. So does the binding in
  mode \<open>mouseover\<close> when that pointer enters the source.
\<close>

theorem scenario_ratio_three:
  "xRatio (snapshot scenario_layout 0 0) = Fin 3
   \<and> yRatio (snapshot scenario_layout 0 0) = Fin 3
   \<and> xRatio (snapshot scenario_layout 1 0) = Fin 3
   \<and> yRatio (snapshot scenario_layout 1 0) = Fin 3
   \<and> geometry (init scenario_layout (zoom_on 0 0)) = Some (snapshot scenario_layout 0 0)
   \<and> geometry (init scenario_layout (zoom_on 1 0)) = Some (snapshot scenario_layout 1 0)
   \<and> getOffset scenario_layout 0 = \<lparr> off_top = 10, off_left = 10 \<rparr>
   \<and> max (min (60 - off_left (getOffset scenario_layout 0))
             (of_nat (sourceWidth (snapshot scenario_layout 0 0)))) 0 = 50
   \<and> max (min (60 - off_top (getOffset scenario_layout 0))
             (of_nat (sourceHeight (snapshot scenario_layout 0 0)))) 0 = 50
   \<and> move (init scenario_layout (zoom_on 0 0)) \<lparr> pageX = 60, pageY = 60 \<rparr> im =
       Inr (im\<lparr> style_left := Some (Fin (- 150)), style_top := Some (Fin (- 150)) \<rparr>)
   \<and> move (init scenario_layout (zoom_on 1 0)) \<lparr> pageX = 60, pageY = 60 \<rparr> im =
       Inr (im\<lparr> style_left := Some (Fin (- 150)), style_top := Some (Fin (- 150)) \<rparr>)
   \<and> magnify (options_for Mouseover) = 1
   \<and> style_width (img (loaded Mouseover)) = Some 400
   \<and> style_height (img (loaded Mouseover)) = Some 400
   \<and> geometry (zm (dispatch_source scenario_layout (options_for Mouseover)
        (event_at MouseoverEv 60 60) (loaded Mouseover))) = Some (snapshot scenario_layout 0 0)
   \<and> style_left (img (dispatch_source scenario_layout (options_for Mouseover)
        (event_at MouseoverEv 60 60) (loaded Mouseover))) = Some (Fin (- 150))
   \<and> style_top (img (dispatch_source scenario_layout (options_for Mouseover)
        (event_at MouseoverEv 60 60) (loaded Mouseover))) = Some (Fin (- 150))"
proof -
  have o: "getOffset scenario_layout 0 = \<lparr> off_top = 10, off_left = 10 \<rparr>"
    by (simp add: getOffset_def scenario_layout_def)
  have m: "move (init scenario_layout (zoom_on t 0)) \<lparr> pageX = 60, pageY = 60 \<rparr> i =
       Inr (i\<lparr> style_left := Some (Fin (- 150)), style_top := Some (Fin (- 150)) \<rparr>)" for t i
    by (simp add: scenario_snapshot move_def init_def zoom_on_def Let_def)
  have geo: "xRatio (snapshot scenario_layout 0 0) = Fin 3
   \<and> yRatio (snapshot scenario_layout 0 0) = Fin 3
   \<and> xRatio (snapshot scenario_layout 1 0) = Fin 3
   \<and> yRatio (snapshot scenario_layout 1 0) = Fin 3
   \<and> geometry (init scenario_layout (zoom_on 0 0)) = Some (snapshot scenario_layout 0 0)
   \<and> geometry (init scenario_layout (zoom_on 1 0)) = Some (snapshot scenario_layout 1 0)
   \<and> max (min (60 - off_left (getOffset scenario_layout 0))
             (of_nat (sourceWidth (snapshot scenario_layout 0 0)))) 0 = 50
   \<and> max (min (60 - off_top (getOffset scenario_layout 0))
             (of_nat (sourceHeight (snapshot scenario_layout 0 0)))) 0 = 50"
    unfolding o by (simp add: scenario_snapshot init_def zoom_on_def)
  have d: "dispatch_source scenario_layout (options_for Mouseover) (event_at MouseoverEv 60 60)
        (loaded Mouseover)
      = start scenario_layout (options_for Mouseover) \<lparr> pageX = 60, pageY = 60 \<rparr> (loaded Mouseover)"
    using dispatch_mouseover [of "options_for Mouseover" "loaded Mouseover"
        "event_at MouseoverEv 60 60" scenario_layout]
    by (simp add: options_for_fields loaded_wired event_at_def)
  have z: "geometry (zm (start scenario_layout (options_for Mouseover) \<lparr> pageX = 60, pageY = 60 \<rparr>
        (loaded Mouseover))) = Some (snapshot scenario_layout 0 0)"
    by (simp add: start_fields geometry_init loaded_zm zoom_on_def)
  have i: "img (start scenario_layout (options_for Mouseover) \<lparr> pageX = 60, pageY = 60 \<rparr>
        (loaded Mouseover))
      = fadeTo ((img (loaded Mouseover))\<lparr> style_left := Some (Fin (- 150)),
                                         style_top := Some (Fin (- 150)) \<rparr>)
          (duration (options_for Mouseover)) 1 (Some CbZoomIn)"
    by (rule start_img) (simp add: loaded_zm m)
  have st: "style_left (img (start scenario_layout (options_for Mouseover)
        \<lparr> pageX = 60, pageY = 60 \<rparr> (loaded Mouseover))) = Some (Fin (- 150))
      \<and> style_top (img (start scenario_layout (options_for Mouseover)
        \<lparr> pageX = 60, pageY = 60 \<rparr> (loaded Mouseover))) = Some (Fin (- 150))"
    unfolding i by (simp add: style_fadeTo)
  have mg: "magnify (options_for Mouseover) = 1"
    by (simp add: options_for_def ZOOM_DEFAULT_OPTIONS_def)
  show ?thesis
    unfolding d using o m geo z st mg loaded_overlay(1,2) by simp
qed


section \<open>destroy\<close>

lemma loaded_page:
  "target_position (loaded t) = ''relative''" "target_overflow (loaded t) = ''hidden''"
  "appended (loaded t)" "load_listeners (loaded t) = 1" "\<not> onload (loaded t)"
  by (simp_all add: loaded_def on_load_def createZoom_def zoomImage_def Let_def fresh_def
      options_for_def ZOOM_DEFAULT_OPTIONS_def resolve_url_def truthy_def empty_view_def
      scenario_layout_def)

text \<open>
  C8. The target of the fresh page has the inline style \<open>position: ''\<close>, \<open>overflow: ''\<close>;
  once the overlay has loaded it has \<open>relative\<close> and \<open>hidden\<close>, the overlay is appended,
  and the source and the image carry their listeners. \<open>destroy\<close> then throws: a
  TypeError when there is no current event, a ReferenceError at \<open>$source.off(".zoom")\<close>
  otherwise, in both cases before any of its assignments, so nothing is detached, removed
  or restored. Were \<open>$source\<close> bound, with any meaning of \<open>off\<close>, the values written
  back would be the ones read from \<open>event.target.style\<close> when \<open>destroy\<close> runs, for the
  target itself \<open>relative\<close> and \<open>hidden\<close>, and the \<open>load\<close> listener would stay.
\<close>

theorem destroy_does_not_restore:
  "target_position fresh = [] \<and> target_overflow fresh = []
   \<and> target_position (loaded Mouseover) = ''relative''
   \<and> target_overflow (loaded Mouseover) = ''hidden''
   \<and> appended (loaded Mouseover)
   \<and> load_listeners (loaded Mouseover) = 1
   \<and> source_listeners (loaded Mouseover) =
        [(MouseoverEv, StartListener), (Mouseleave, StopListener), (Mousemove, MoveListener),
         (Touchstart, TouchStartListener), (Touchmove, TouchMoveListener),
         (Touchend, TouchEndListener)]
   \<and> destroy None None (loaded Mouseover) = Inl TypeError
   \<and> destroy None (Some (target_position (loaded Mouseover), target_overflow (loaded Mouseover)))
        (loaded Mouseover) = Inl ReferenceError
   \<and> (\<forall>off. \<exists>b'.
        destroy (Some off)
          (Some (target_position (loaded Mouseover), target_overflow (loaded Mouseover)))
          (loaded Mouseover) = Inr b'
        \<and> target_position b' = ''relative'' \<and> target_overflow b' = ''hidden''
        \<and> load_listeners b' = 1)"
  by (simp add: destroy_def loaded_page loaded_wired mouse_listeners_def touch_listeners_def
      options_for_fields fresh_def)


end
